theory Spec2Isabelle
  imports Main
begin

section \<open>JavaScript values shared by the components\<close>

text \<open>
  A thrown value. The code throws \<open>new Error(message)\<close> everywhere; \<open>TypeError\<close> and
  \<open>SyntaxError\<close> are what the platform throws on a property read of \<open>null\<close>, on a failed
  network request and on text that is not JSON.
\<close>

datatype exn = Error string | TypeError string | SyntaxError string

fun message :: "exn \<Rightarrow> string" where
  "message (Error m) = m"
| "message (TypeError m) = m"
| "message (SyntaxError m) = m"

text \<open>
  A value that is a string, \<open>null\<close> or \<open>undefined\<close>: the last two are \<open>None\<close>.
  Such a value is truthy when it is a non-empty string.
\<close>

definition truthy :: "string option \<Rightarrow> bool" where
  "truthy v = (case v of None \<Rightarrow> False | Some s \<Rightarrow> s \<noteq> [])"

text \<open>Inside a template literal, \<open>null\<close> prints as the text null.\<close>

definition template :: "string option \<Rightarrow> string" where
  "template v = (case v of None \<Rightarrow> ''null'' | Some s \<Rightarrow> s)"

section \<open>Merge engine (core/js/sync/index.js)\<close>

subsection \<open>Records, timestamps and the insertion-ordered Map\<close>

text \<open>
  A synced record is a JavaScript object with an \<open>id\<close> and an \<open>updatedAt\<close> property.
  The record type is extensible: every function below is typed over the record scheme,
  so the remaining properties of an item (title, status, ...) are carried along untouched.
  \<open>updatedAt = None\<close> stands for a missing (undefined) property.
\<close>

record item =
  item_id :: string
  updatedAt :: "string option"

text \<open>
  \<open>new Date(v).getTime()\<close> is a number or NaN; a time value is \<open>Some ms\<close>, and
  \<open>None\<close> is NaN. The host's parser of date strings is a parameter \<open>D\<close> of the model.
  \<open>new Date(x || 0).getTime()\<close>: a missing or empty \<open>updatedAt\<close> is falsy and
  is replaced by the number 0, the epoch.
\<close>

type_synonym time_value = "int option"
type_synonym date_parser = "string \<Rightarrow> time_value"

definition getTime :: "date_parser \<Rightarrow> string option \<Rightarrow> time_value" where
  "getTime D u = (case u of None \<Rightarrow> Some 0 | Some s \<Rightarrow> if s = [] then Some 0 else D s)"

text \<open>The comparison \<open>a > b\<close> on numbers: false as soon as one side is NaN.\<close>

definition js_gt :: "time_value \<Rightarrow> time_value \<Rightarrow> bool" where
  "js_gt a b = (case a of None \<Rightarrow> False | Some x \<Rightarrow> (case b of None \<Rightarrow> False | Some y \<Rightarrow> y < x))"

text \<open>
  A JavaScript \<open>Map\<close> keeps its entries in insertion order; \<open>set\<close> on a key that is
  present replaces the value in place, \<open>set\<close> on a new key appends the entry.
\<close>

type_synonym ('k, 'v) js_map = "('k \<times> 'v) list"

fun map_set :: "('k, 'v) js_map \<Rightarrow> 'k \<Rightarrow> 'v \<Rightarrow> ('k, 'v) js_map" where
  "map_set [] k v = [(k, v)]"
| "map_set ((k', v') # m) k v = (if k' = k then (k, v) # m else (k', v') # map_set m k v)"

definition map_get :: "('k, 'v) js_map \<Rightarrow> 'k \<Rightarrow> 'v option" where
  "map_get m k = map_of m k"

definition map_values :: "('k, 'v) js_map \<Rightarrow> 'v list" where
  "map_values m = map snd m"

subsection \<open>mergeArrays\<close>

record 'a merge_result =
  local :: 'a
  hasLocalChanges :: bool

text \<open>First loop: \<open>for (const item of local) merged.set(item.id, item)\<close>.\<close>

definition seed_local :: "'a item_scheme list \<Rightarrow> (string, 'a item_scheme) js_map" where
  "seed_local loc = fold (\<lambda>item merged. map_set merged (item_id item) item) loc []"

text \<open>Body of the second loop, on the pair (merged, hasLocalChanges).\<close>

definition merge_remote_item ::
  "date_parser \<Rightarrow> 'a item_scheme \<Rightarrow> (string, 'a item_scheme) js_map \<times> bool
     \<Rightarrow> (string, 'a item_scheme) js_map \<times> bool" where
  "merge_remote_item D remoteItem st =
     (case st of (merged, hlc) \<Rightarrow>
        (case map_get merged (item_id remoteItem) of
           None \<Rightarrow> (map_set merged (item_id remoteItem) remoteItem, hlc)
         | Some localItem \<Rightarrow>
             (let localTime = getTime D (updatedAt localItem);
                  remoteTime = getTime D (updatedAt remoteItem)
              in if js_gt remoteTime localTime
                 then (map_set merged (item_id remoteItem) remoteItem, hlc)
                 else if js_gt localTime remoteTime then (merged, True)
                 else (merged, hlc))))"

text \<open>Body of the third loop: a local item with no counterpart in remote sets the flag.\<close>

definition local_only_item :: "'a item_scheme list \<Rightarrow> 'a item_scheme \<Rightarrow> bool \<Rightarrow> bool" where
  "local_only_item remote item hlc =
     (case find (\<lambda>r. item_id r = item_id item) remote of None \<Rightarrow> True | Some inRemote \<Rightarrow> hlc)"

definition mergeArrays ::
  "date_parser \<Rightarrow> 'a item_scheme list \<Rightarrow> 'a item_scheme list \<Rightarrow> 'a item_scheme list merge_result" where
  "mergeArrays D loc remote =
     (let st = fold (merge_remote_item D) remote (seed_local loc, False);
          hlc = fold (local_only_item remote) loc (snd st)
      in \<lparr> local = map_values (fst st), hasLocalChanges = hlc \<rparr>)"

subsection \<open>mergeData\<close>

text \<open>
  A snapshot is an array of records or a plain object. Of a plain object the merge reads
  \<open>updatedAt\<close> and \<open>items\<close>; its other properties are a finite map (property order is not
  observable through structural equality). A snapshot that is \<open>null\<close> or \<open>undefined\<close> is
  \<open>None\<close>; arrays and objects are always truthy.
\<close>

datatype 'a snapshot =
    Records "'a item_scheme list"
  | Document (doc_updatedAt: "string option") (doc_items: "'a item_scheme list option")
             (doc_fields: "string \<rightharpoonup> string")

text \<open>\<open>x.updatedAt\<close> and \<open>x.items\<close> of a snapshot; an array has neither property.\<close>

fun snapshot_updatedAt :: "'a snapshot \<Rightarrow> string option" where
  "snapshot_updatedAt (Records xs) = None"
| "snapshot_updatedAt (Document u its fs) = u"

fun snapshot_items :: "'a snapshot \<Rightarrow> 'a item_scheme list option" where
  "snapshot_items (Records xs) = None"
| "snapshot_items (Document u its fs) = its"

text \<open>\<open>{ ...local, ...remote, items: mergedItems }\<close> on two plain objects.\<close>

definition spread_items :: "'a snapshot \<Rightarrow> 'a snapshot \<Rightarrow> 'a item_scheme list \<Rightarrow> 'a snapshot" where
  "spread_items l r mergedItems =
     Document (case doc_updatedAt r of Some u \<Rightarrow> Some u | None \<Rightarrow> doc_updatedAt l)
              (Some mergedItems)
              (doc_fields l ++ doc_fields r)"

fun is_array :: "'a snapshot \<Rightarrow> bool" where
  "is_array (Records xs) = True"
| "is_array (Document u its fs) = False"

fun array_items :: "'a snapshot \<Rightarrow> 'a item_scheme list" where
  "array_items (Records xs) = xs"
| "array_items (Document u its fs) = []"

definition mergeData ::
  "date_parser \<Rightarrow> 'a snapshot option \<Rightarrow> 'a snapshot option \<Rightarrow> string option
     \<Rightarrow> 'a snapshot option merge_result" where
  "mergeData D loc remote lastSync =
     (case remote of
        None \<Rightarrow> \<lparr> local = loc, hasLocalChanges = True \<rparr>
      | Some r \<Rightarrow>
          (case loc of
             None \<Rightarrow> \<lparr> local = Some r, hasLocalChanges = False \<rparr>
           | Some l \<Rightarrow>
               if is_array l \<and> is_array r then
                 (let m = mergeArrays D (array_items l) (array_items r)
                  in \<lparr> local = Some (Records (local m)), hasLocalChanges = hasLocalChanges m \<rparr>)
               else
                 (case (snapshot_items l, snapshot_items r) of
                    (Some li, Some ri) \<Rightarrow>
                      (let mergedItems = mergeArrays D li ri
                       in \<lparr> local = Some (spread_items l r (local mergedItems)),
                            hasLocalChanges = hasLocalChanges mergedItems \<rparr>)
                  | _ \<Rightarrow>
                      (let localTime = getTime D (snapshot_updatedAt l);
                           remoteTime = getTime D (snapshot_updatedAt r)
                       in if js_gt remoteTime localTime
                          then \<lparr> local = Some r, hasLocalChanges = False \<rparr>
                          else \<lparr> local = Some l, hasLocalChanges = js_gt localTime remoteTime \<rparr>))))"

section \<open>OAuth2 handler (core/js/oauth/index.js)\<close>

subsection \<open>Configuration and storage\<close>

text \<open>
  An entry of \<open>OAUTH_CONFIG\<close> as the code reads it: \<open>config.authUrl\<close> and
  \<open>config.tokenUrl\<close> are strings or \<open>undefined\<close> (\<open>None\<close>).
\<close>

record oauth_config =
  authUrl :: "string option"
  tokenUrl :: "string option"
  scopes :: "(string \<times> string) list"

text \<open>
  \<open>OAUTH_CONFIG\<close> is an object literal, so \<open>OAUTH_CONFIG[provider]\<close> also finds the
  properties every object inherits from \<open>Object.prototype\<close>. Their values are functions
  (or, for \<open>__proto__\<close>, the prototype itself): truthy, and without \<open>authUrl\<close> or
  \<open>tokenUrl\<close>.
\<close>

definition object_prototype_names :: "string list" where
  "object_prototype_names =
     [''constructor'', ''hasOwnProperty'', ''isPrototypeOf'', ''propertyIsEnumerable'',
      ''toLocaleString'', ''toString'', ''valueOf'', ''__proto__'',
      ''__defineGetter__'', ''__defineSetter__'', ''__lookupGetter__'', ''__lookupSetter__'']"

definition inherited_property :: oauth_config where
  "inherited_property = \<lparr> authUrl = None, tokenUrl = None, scopes = [] \<rparr>"

text \<open>
  \<open>OAUTH_CONFIG[provider]\<close>: \<open>None\<close> is \<open>undefined\<close>, the one value for which the guard
  \<open>if (!config)\<close> throws.
\<close>

definition OAUTH_CONFIG :: "string \<rightharpoonup> oauth_config" where
  "OAUTH_CONFIG provider =
     (if provider = ''google'' then
        Some \<lparr> authUrl = Some ''https://accounts.google.com/o/oauth2/v2/auth'',
               tokenUrl = Some ''https://oauth2.googleapis.com/token'',
               scopes = [(''drive'', ''https://www.googleapis.com/auth/drive.file'')] \<rparr>
      else if provider = ''dropbox'' then
        Some \<lparr> authUrl = Some ''https://www.dropbox.com/oauth2/authorize'',
               tokenUrl = Some ''https://api.dropboxapi.com/oauth2/token'',
               scopes = [] \<rparr>
      else if provider \<in> set object_prototype_names then Some inherited_property
      else None)"

text \<open>A string that may be \<open>undefined\<close>, where the code turns it into text.\<close>

definition or_undefined_text :: "string option \<Rightarrow> string" where
  "or_undefined_text v = (case v of None \<Rightarrow> ''undefined'' | Some s \<Rightarrow> s)"

text \<open>
  \<open>localStorage\<close> holds JSON text under the keys \<open>oauth-{provider}\<close>, \<open>token-{provider}\<close>
  and \<open>{domain}-settings\<close>. The model keeps one typed map per family of keys; what
  \<open>saveOAuthState\<close> and \<open>saveToken\<close> write is what \<open>JSON.parse\<close> reads back.
\<close>

record oauth_session =
  state :: string
  verifier :: string
  timestamp :: int

record token_record =
  accessToken :: string
  refreshToken :: "string option"
  expiry :: int

record folder =
  folder_id :: string
  folder_name :: string

record storage =
  oauth_sessions :: "string \<rightharpoonup> oauth_session"
  tokens :: "string \<rightharpoonup> token_record"
  syncFolders :: "string \<rightharpoonup> folder"

text \<open>\<open>Date.now()\<close> is the argument \<open>now\<close>, in milliseconds.\<close>

definition saveOAuthState :: "string \<Rightarrow> string \<Rightarrow> string \<Rightarrow> int \<Rightarrow> storage \<Rightarrow> storage" where
  "saveOAuthState provider st_nonce vrf now st =
     st\<lparr> oauth_sessions := (oauth_sessions st)(provider \<mapsto>
           \<lparr> state = st_nonce, verifier = vrf, timestamp = now \<rparr>) \<rparr>"

definition getOAuthState :: "string \<Rightarrow> int \<Rightarrow> storage \<Rightarrow> oauth_session option \<times> storage" where
  "getOAuthState provider now st =
     (case oauth_sessions st provider of
        None \<Rightarrow> (None, st)
      | Some parsed \<Rightarrow>
          if now - timestamp parsed > 10 * 60 * 1000
          then (None, st\<lparr> oauth_sessions := (oauth_sessions st)(provider := None) \<rparr>)
          else (Some parsed, st))"

text \<open>The JSON body of a successful token response.\<close>

record token_json =
  access_token :: string
  refresh_token :: "string option"
  expires_in :: "int option"

text \<open>\<open>(token.expires_in || 3600) * 1000\<close>: a missing or zero lifetime counts as 3600 s.\<close>

definition saveToken :: "string \<Rightarrow> token_json \<Rightarrow> int \<Rightarrow> storage \<Rightarrow> storage" where
  "saveToken provider token now st =
     (let lifetime = (case expires_in token of None \<Rightarrow> 3600 | Some n \<Rightarrow> if n = 0 then 3600 else n);
          expiry = now + lifetime * 1000
      in st\<lparr> tokens := (tokens st)(provider \<mapsto>
              \<lparr> accessToken = access_token token,
                refreshToken = refresh_token token,
                expiry = expiry \<rparr>) \<rparr>)"

subsection \<open>getToken, isAuthenticated, logout\<close>

definition getToken :: "string \<Rightarrow> int \<Rightarrow> storage \<Rightarrow> string option \<times> storage" where
  "getToken provider now st =
     (case tokens st provider of
        None \<Rightarrow> (None, st)
      | Some parsed \<Rightarrow>
          if now > expiry parsed - 5 * 60 * 1000 then
            (if truthy (refreshToken parsed) then (None, st)
             else (None, st\<lparr> tokens := (tokens st)(provider := None) \<rparr>))
          else (Some (accessToken parsed), st))"

definition isAuthenticated :: "string \<Rightarrow> int \<Rightarrow> storage \<Rightarrow> bool \<times> storage" where
  "isAuthenticated provider now st =
     (case getToken provider now st of (tok, st') \<Rightarrow> (tok \<noteq> None, st'))"

definition logout :: "string \<Rightarrow> storage \<Rightarrow> storage" where
  "logout provider st =
     st\<lparr> tokens := (tokens st)(provider := None),
         oauth_sessions := (oauth_sessions st)(provider := None) \<rparr>"

subsection \<open>startAuth\<close>

text \<open>
  \<open>startAuth\<close> with the values it draws at random (the PKCE verifier, its challenge and
  the state nonce) and the clock as arguments; \<open>serialize\<close> is the text of a
  \<open>URLSearchParams\<close>. It returns the address the page is sent to and the storage with
  the saved session, or throws before it saves anything.
\<close>

fun join_with :: "string \<Rightarrow> string list \<Rightarrow> string" where
  "join_with sep [] = []"
| "join_with sep [x] = x"
| "join_with sep (x # y # xs) = x @ sep @ join_with sep (y # xs)"

definition startAuth ::
  "((string \<times> string) list \<Rightarrow> string) \<Rightarrow> string \<Rightarrow> string \<Rightarrow> string \<Rightarrow> int
     \<Rightarrow> string \<Rightarrow> string \<Rightarrow> string list \<Rightarrow> string \<Rightarrow> storage \<Rightarrow> exn + string \<times> storage" where
  "startAuth serialize vrf challenge nonce now provider clientId scps redirectUri st =
     (case OAUTH_CONFIG provider of
        None \<Rightarrow> Inl (Error (''Unknown provider: '' @ provider))
      | Some config \<Rightarrow>
          (let st' = saveOAuthState provider nonce vrf now st;
               params = [(''client_id'', clientId),
                         (''redirect_uri'', redirectUri),
                         (''response_type'', ''code''),
                         (''scope'', join_with '' '' scps),
                         (''state'', nonce),
                         (''code_challenge'', challenge),
                         (''code_challenge_method'', ''S256'')]
           in Inr (or_undefined_text (authUrl config) @ ''?'' @ serialize params, st')))"

subsection \<open>handleCallback\<close>

text \<open>
  The page: its storage and the three query parameters the handler reads;
  \<open>params.get\<close> gives \<open>null\<close> (\<open>None\<close>) for a parameter that is absent.
\<close>

record callback_query =
  q_code :: "string option"
  q_state :: "string option"
  q_error :: "string option"

record browser =
  localStorage :: storage
  search :: callback_query

text \<open>
  The POST to the token endpoint and what comes back. The request is rejected (no
  response), or the response is not ok, or the response is ok. The body of a response,
  read with \<open>json()\<close>, is unreadable (\<open>json()\<close> rejects), \<open>null\<close>, or a JSON value
  whose properties the code goes on to read.
\<close>

record token_request =
  req_url :: string
  client_id :: string
  code :: string
  redirect_uri :: string
  grant_type :: string
  code_verifier :: string
  client_secret :: "string option"

record error_json =
  error_description :: "string option"
  error_code :: "string option"

datatype 'a json_body = Unreadable exn | NullBody | Body 'a

datatype exchange =
    Rejected exn | Failure "error_json json_body" | Success "token_json json_body"

type_synonym token_endpoint = "token_request \<Rightarrow> exchange"

text \<open>\<open>errorData.error_description || errorData.error\<close> inside the template literal.\<close>

definition exchange_failure_detail :: "error_json \<Rightarrow> string" where
  "exchange_failure_detail errorData =
     (if truthy (error_description errorData) then template (error_description errorData)
      else or_undefined_text (error_code errorData))"

definition tokenParams ::
  "oauth_config \<Rightarrow> string \<Rightarrow> string \<Rightarrow> string \<Rightarrow> string option \<Rightarrow> oauth_session \<Rightarrow> token_request" where
  "tokenParams config clientId cd redirectUri clientSecret savedState =
     \<lparr> req_url = or_undefined_text (tokenUrl config),
       client_id = clientId,
       code = cd,
       redirect_uri = redirectUri,
       grant_type = ''authorization_code'',
       code_verifier = verifier savedState,
       client_secret = (if truthy clientSecret then clientSecret else None) \<rparr>"

text \<open>
  \<open>now\<close> is the clock when the saved session is read, \<open>now_saved\<close> the clock when the
  token is stored (after the exchange). A thrown error is \<open>Inl\<close>; the second component
  is the page afterwards. On a body that is \<open>null\<close> the first property read throws:
  \<open>errorData.error_description\<close> for a response that is not ok, \<open>token.expires_in\<close> in
  \<open>saveToken\<close> (before anything is stored) for one that is.
\<close>

definition handleCallback ::
  "token_endpoint \<Rightarrow> int \<Rightarrow> int \<Rightarrow> string \<Rightarrow> string \<Rightarrow> string \<Rightarrow> string option
     \<Rightarrow> browser \<Rightarrow> (exn + bool) \<times> browser" where
  "handleCallback endpoint now now_saved provider clientId redirectUri clientSecret b =
     (case OAUTH_CONFIG provider of
        None \<Rightarrow> (Inl (Error (''Unknown provider: '' @ provider)), b)
      | Some config \<Rightarrow>
          (let cd = q_code (search b); st = q_state (search b); err = q_error (search b)
           in if truthy err then (Inl (Error (''OAuth error: '' @ template err)), b)
              else if \<not> truthy cd \<or> \<not> truthy st
              then (Inl (Error ''Missing code or state parameter''), b)
              else
                (case getOAuthState provider now (localStorage b) of
                   (None, ls) \<Rightarrow>
                     (Inl (Error ''Invalid state parameter''), b\<lparr> localStorage := ls \<rparr>)
                 | (Some savedState, ls) \<Rightarrow>
                     if Some (state savedState) \<noteq> st
                     then (Inl (Error ''Invalid state parameter''), b\<lparr> localStorage := ls \<rparr>)
                     else
                       (case endpoint (tokenParams config clientId (template cd) redirectUri
                                         clientSecret savedState) of
                          Rejected e \<Rightarrow> (Inl e, b\<lparr> localStorage := ls \<rparr>)
                        | Failure (Unreadable e) \<Rightarrow> (Inl e, b\<lparr> localStorage := ls \<rparr>)
                        | Failure NullBody \<Rightarrow>
                            (Inl (TypeError ''Cannot read properties of null''),
                             b\<lparr> localStorage := ls \<rparr>)
                        | Failure (Body errorData) \<Rightarrow>
                            (Inl (Error (''Token exchange failed: '' @
                                         exchange_failure_detail errorData)),
                             b\<lparr> localStorage := ls \<rparr>)
                        | Success (Unreadable e) \<Rightarrow> (Inl e, b\<lparr> localStorage := ls \<rparr>)
                        | Success NullBody \<Rightarrow>
                            (Inl (TypeError ''Cannot read properties of null''),
                             b\<lparr> localStorage := ls \<rparr>)
                        | Success (Body token) \<Rightarrow>
                            (let ls2 = saveToken provider token now_saved ls;
                                 ls3 = ls2\<lparr> oauth_sessions := (oauth_sessions ls2)(provider := None) \<rparr>
                             in (Inr True,
                                 \<lparr> localStorage = ls3,
                                   search = \<lparr> q_code = None, q_state = None, q_error = None \<rparr> \<rparr>))))))"

definition hasOAuthCallback :: "browser \<Rightarrow> bool" where
  "hasOAuthCallback b = (q_code (search b) \<noteq> None \<and> q_state (search b) \<noteq> None)"

section \<open>Sync engine (core/js/sync/index.js)\<close>

datatype sync_status = IDLE | SYNCING | ERROR

text \<open>
  The engine calls code it does not own: the provider, the accessor and the mutator of the
  local data, the last-sync getter and setter, the listeners. Each call runs on the world
  \<open>'w\<close> outside the engine (storage, network, local database), returns a value or throws,
  and leaves a world behind in both cases.
\<close>

type_synonym ('r, 'w) effect = "'w \<Rightarrow> (exn + 'r) \<times> 'w"

text \<open>The closure variables of \<open>createSyncEngine\<close>.\<close>

record 'w engine =
  status :: sync_status
  lastError :: "string option"
  listeners :: "(sync_status \<Rightarrow> string option \<Rightarrow> (unit, 'w) effect) list"

text \<open>What \<open>provider.fetch()\<close> resolves to and what \<open>provider.push\<close> is given.\<close>

record 's sync_data =
  data :: "'s option"
  lastModified :: "string option"

record ('a, 'w) sync_config =
  provider_isConnected :: "(bool, 'w) effect"
  provider_isFolderConfigured :: "(bool, 'w) effect"
  provider_fetch :: "('a snapshot sync_data, 'w) effect"
  provider_push :: "'a snapshot sync_data \<Rightarrow> (unit, 'w) effect"
  getLocalData :: "('a snapshot option, 'w) effect"
  setLocalData :: "'a snapshot option \<Rightarrow> (unit, 'w) effect"
  getLastSync :: "(string option, 'w) effect"
  setLastSync :: "string \<Rightarrow> (unit, 'w) effect"
  toISOString :: "'w \<Rightarrow> string"
  parseDate :: date_parser

record sync_result =
  success :: bool
  error :: "string option"

text \<open>\<open>listeners.forEach((l) => l(status, lastError))\<close>: the first listener that throws ends the loop.\<close>

fun notify_each ::
  "(sync_status \<Rightarrow> string option \<Rightarrow> (unit, 'w) effect) list \<Rightarrow> sync_status \<Rightarrow> string option
     \<Rightarrow> (unit, 'w) effect" where
  "notify_each [] s e w = (Inr (), w)"
| "notify_each (l # ls) s e w =
     (case l s e w of
        (Inl x, w') \<Rightarrow> (Inl x, w')
      | (Inr u, w') \<Rightarrow> notify_each ls s e w')"

definition notifyStatusChange :: "'w engine \<Rightarrow> (unit, 'w) effect" where
  "notifyStatusChange eng w = notify_each (listeners eng) (status eng) (lastError eng) w"

text \<open>
  The \<open>try\<close> block of \<open>sync\<close>. \<open>Inl\<close> is the exception that reaches the \<open>catch\<close>, with the
  engine and the world at that moment.
\<close>

definition sync_try ::
  "('a, 'w) sync_config \<Rightarrow> 'w engine \<Rightarrow> 'w \<Rightarrow> (exn + unit) \<times> 'w engine \<times> 'w" where
  "sync_try cfg eng w =
     (case getLocalData cfg w of
        (Inl x, w1) \<Rightarrow> (Inl x, eng, w1)
      | (Inr localData, w1) \<Rightarrow>
     (case getLastSync cfg w1 of
        (Inl x, w2) \<Rightarrow> (Inl x, eng, w2)
      | (Inr lastSync, w2) \<Rightarrow>
     (case provider_fetch cfg w2 of
        (Inl x, w3) \<Rightarrow> (Inl x, eng, w3)
      | (Inr remoteResult, w3) \<Rightarrow>
     (let remoteData = data remoteResult;
          merged = mergeData (parseDate cfg) localData remoteData lastSync
      in
     (case setLocalData cfg (local merged) w3 of
        (Inl x, w4) \<Rightarrow> (Inl x, eng, w4)
      | (Inr u, w4) \<Rightarrow>
     (case (if hasLocalChanges merged
            then provider_push cfg \<lparr> data = local merged,
                                     lastModified = Some (toISOString cfg w4) \<rparr> w4
            else (Inr (), w4)) of
        (Inl x, w5) \<Rightarrow> (Inl x, eng, w5)
      | (Inr u, w5) \<Rightarrow>
     (case setLastSync cfg (toISOString cfg w5) w5 of
        (Inl x, w6) \<Rightarrow> (Inl x, eng, w6)
      | (Inr u, w6) \<Rightarrow>
     (let eng' = eng\<lparr> status := IDLE \<rparr>
      in case notifyStatusChange eng' w6 of
           (Inl x, w7) \<Rightarrow> (Inl x, eng', w7)
         | (Inr u, w7) \<Rightarrow> (Inr (), eng', w7)))))))))"

text \<open>
  \<open>sync()\<close>. \<open>Inr\<close> is the result object the promise resolves to, \<open>Inl\<close> an exception that
  leaves \<open>sync\<close> (the promise is rejected).
\<close>

definition sync ::
  "('a, 'w) sync_config \<Rightarrow> 'w engine \<Rightarrow> 'w \<Rightarrow> (exn + sync_result) \<times> 'w engine \<times> 'w" where
  "sync cfg eng w =
     (if status eng = SYNCING
      then (Inr \<lparr> success = False, error = Some ''Sync already in progress'' \<rparr>, eng, w)
      else
        (case provider_isConnected cfg w of
           (Inl x, w1) \<Rightarrow> (Inl x, eng, w1)
         | (Inr connected, w1) \<Rightarrow>
             if \<not> connected
             then (Inr \<lparr> success = False, error = Some ''Not connected to sync provider'' \<rparr>, eng, w1)
             else
               (case provider_isFolderConfigured cfg w1 of
                  (Inl x, w2) \<Rightarrow> (Inl x, eng, w2)
                | (Inr configured, w2) \<Rightarrow>
                    if \<not> configured
                    then (Inr \<lparr> success = False, error = Some ''No sync folder configured'' \<rparr>, eng, w2)
                    else
                      (let eng1 = eng\<lparr> status := SYNCING, lastError := None \<rparr>
                       in case notifyStatusChange eng1 w2 of
                            (Inl x, w3) \<Rightarrow> (Inl x, eng1, w3)
                          | (Inr u, w3) \<Rightarrow>
                              (case sync_try cfg eng1 w3 of
                                 (Inr u, eng2, w4) \<Rightarrow>
                                   (Inr \<lparr> success = True, error = None \<rparr>, eng2, w4)
                               | (Inl err, eng2, w4) \<Rightarrow>
                                   (let eng3 = eng2\<lparr> status := ERROR,
                                                     lastError := Some (message err) \<rparr>
                                    in case notifyStatusChange eng3 w4 of
                                         (Inl x, w5) \<Rightarrow> (Inl x, eng3, w5)
                                       | (Inr u, w5) \<Rightarrow>
                                           (Inr \<lparr> success = False, error = Some (message err) \<rparr>,
                                            eng3, w5)))))))"

section \<open>Google Drive provider (core/js/providers/google-drive.js)\<close>

subsection \<open>JSON values\<close>

text \<open>
  A parsed JSON document. A JavaScript value that may also be \<open>undefined\<close> is a
  \<open>json option\<close>, with \<open>None\<close> for \<open>undefined\<close>. Numbers are integers here.
\<close>

datatype json =
    JNull | JBool bool | JNum int | JStr string | JArr "json list" | JObj "(string \<times> json) list"

fun js_truthy :: "json option \<Rightarrow> bool" where
  "js_truthy None = False"
| "js_truthy (Some JNull) = False"
| "js_truthy (Some (JBool b)) = b"
| "js_truthy (Some (JNum n)) = (n \<noteq> 0)"
| "js_truthy (Some (JStr s)) = (s \<noteq> [])"
| "js_truthy (Some (JArr xs)) = True"
| "js_truthy (Some (JObj ps)) = True"

text \<open>\<open>x.k\<close> on a value that is neither \<open>null\<close> nor \<open>undefined\<close>: only objects carry the properties read here.\<close>

fun js_prop :: "json \<Rightarrow> string \<Rightarrow> json option" where
  "js_prop (JObj ps) k = map_of ps k"
| "js_prop j k = None"

text \<open>\<open>x.k\<close> in general: a property read of \<open>null\<close> or \<open>undefined\<close> throws a TypeError.\<close>

definition get_prop :: "json option \<Rightarrow> string \<Rightarrow> exn + json option" where
  "get_prop x k =
     (case x of
        None \<Rightarrow> Inl (TypeError ''Cannot read properties of undefined'')
      | Some JNull \<Rightarrow> Inl (TypeError ''Cannot read properties of null'')
      | Some j \<Rightarrow> Inr (js_prop j k))"

text \<open>\<open>x?.k\<close>: \<open>undefined\<close> when \<open>x\<close> is \<open>null\<close> or \<open>undefined\<close>.\<close>

definition opt_prop :: "json option \<Rightarrow> string \<Rightarrow> json option" where
  "opt_prop x k = (case x of None \<Rightarrow> None | Some JNull \<Rightarrow> None | Some j \<Rightarrow> js_prop j k)"

text \<open>\<open>x?.length\<close> as a number, and \<open>x[0]\<close>, for the list of files of a search result.\<close>

fun js_length :: "json option \<Rightarrow> int option" where
  "js_length (Some (JArr xs)) = Some (int (length xs))"
| "js_length (Some (JStr s)) = Some (int (length s))"
| "js_length (Some (JObj ps)) = (case map_of ps ''length'' of Some (JNum n) \<Rightarrow> Some n | _ \<Rightarrow> None)"
| "js_length v = None"

fun js_first :: "json option \<Rightarrow> json option" where
  "js_first (Some (JArr (x # xs))) = Some x"
| "js_first (Some (JStr (c # cs))) = Some (JStr [c])"
| "js_first (Some (JObj ps)) = map_of ps ''0''"
| "js_first v = None"

text \<open>\<open>v || null\<close>.\<close>

definition or_null :: "json option \<Rightarrow> json" where
  "or_null v = (case v of None \<Rightarrow> JNull | Some j \<Rightarrow> if js_truthy (Some j) then j else JNull)"

text \<open>An array element that is \<open>undefined\<close> is printed as \<open>null\<close> by \<open>JSON.stringify\<close>.\<close>

definition or_undefined :: "json option \<Rightarrow> json" where
  "or_undefined v = (case v of None \<Rightarrow> JNull | Some j \<Rightarrow> j)"

text \<open>\<open>typeof v === 'object'\<close> for a parsed JSON value.\<close>

fun is_object :: "json \<Rightarrow> bool" where
  "is_object JNull = True"
| "is_object (JArr xs) = True"
| "is_object (JObj ps) = True"
| "is_object j = False"

subsection \<open>The platform and the state of a provider\<close>

datatype payload = Text string | Multipart string string

record request =
  url :: string
  http_method :: "string option"
  headers :: "(string \<times> string) list"
  body :: "payload option"

record http_response =
  ok :: bool
  body_text :: string

text \<open>
  What the browser supplies: the JSON parser (\<open>None\<close> when it throws) and printer, the
  conversion of a value to a string, \<open>encodeURIComponent\<close>, \<open>parseInt(v, 10)\<close>, the ISO
  text of a clock value, and \<open>window.fetch\<close>, which answers a request with a response or
  rejects; its answer may depend on the requests made before.
\<close>

record platform =
  parse :: "string \<Rightarrow> json option"
  stringify :: "json \<Rightarrow> string"
  to_string :: "json \<Rightarrow> string"
  encodeURIComponent :: "string \<Rightarrow> string"
  parseInt :: "json option \<Rightarrow> int option"
  iso_string :: "int \<Rightarrow> string"
  window_fetch :: "request list \<Rightarrow> request \<Rightarrow> exn + http_response"

text \<open>
  The state a provider works on: the storage with the token and the saved folder, the
  clock, the two cached ids of the closure, and the log of the requests sent so far.
\<close>

record drive =
  store :: storage
  clock :: int
  fileId :: "json option"
  attachmentsFolderId :: "json option"
  requests :: "request list"

text \<open>A value inside a template literal.\<close>

definition js_template :: "platform \<Rightarrow> json option \<Rightarrow> string" where
  "js_template pf v =
     (case v of
        None \<Rightarrow> ''undefined''
      | Some JNull \<Rightarrow> ''null''
      | Some (JStr s) \<Rightarrow> s
      | Some j \<Rightarrow> to_string pf j)"

definition quoted :: "string \<Rightarrow> string" where
  "quoted s = CHR 0x27 # s @ [CHR 0x27]"

definition API_BASE :: string where
  "API_BASE = ''https://www.googleapis.com''"

text \<open>\<open>getSavedFolder\<close> of google-picker.js: the saved folder, when it has an id.\<close>

definition getSavedFolder :: "string \<Rightarrow> storage \<Rightarrow> folder option" where
  "getSavedFolder domain st =
     (case syncFolders st domain of
        None \<Rightarrow> None
      | Some f \<Rightarrow> if folder_id f \<noteq> [] then Some f else None)"

definition isConnected :: "drive \<Rightarrow> bool \<times> drive" where
  "isConnected d =
     (case isAuthenticated ''google'' (clock d) (store d) of (b, st) \<Rightarrow> (b, d\<lparr> store := st \<rparr>))"

definition isFolderConfigured :: "string \<Rightarrow> drive \<Rightarrow> bool" where
  "isFolderConfigured domain d = (getSavedFolder domain (store d) \<noteq> None)"

subsection \<open>apiRequest\<close>

record request_options =
  opt_method :: "string option"
  opt_headers :: "(string \<times> string) list"
  opt_body :: "payload option"

definition no_options :: request_options where
  "no_options = \<lparr> opt_method = None, opt_headers = [], opt_body = None \<rparr>"

text \<open>Sending a request: it is appended to the log whether it is answered or rejected.\<close>

definition send :: "platform \<Rightarrow> request \<Rightarrow> drive \<Rightarrow> (exn + http_response) \<times> drive" where
  "send pf req d = (window_fetch pf (requests d) req, d\<lparr> requests := requests d @ [req] \<rparr>)"

text \<open>
  The error of a response that is not ok:
  \<open>error = await response.json().catch(() => ({}))\<close>, then
  \<open>new Error(error.error?.message || 'API request failed')\<close>.
\<close>

definition api_error :: "platform \<Rightarrow> http_response \<Rightarrow> exn" where
  "api_error pf response =
     (let err = (case parse pf (body_text response) of None \<Rightarrow> JObj [] | Some j \<Rightarrow> j)
      in case get_prop (Some err) ''error'' of
           Inl e \<Rightarrow> e
         | Inr inner \<Rightarrow>
             (let msg = opt_prop inner ''message''
              in if js_truthy msg then Error (js_template pf msg) else Error ''API request failed''))"

definition apiRequest :: "platform \<Rightarrow> string \<Rightarrow> request_options \<Rightarrow> drive \<Rightarrow> (exn + json) \<times> drive" where
  "apiRequest pf path options d =
     (case getToken ''google'' (clock d) (store d) of
        (token, st) \<Rightarrow>
          (let d0 = d\<lparr> store := st \<rparr>
           in if \<not> truthy token then (Inl (Error ''Not authenticated with Google''), d0)
              else
                (case send pf \<lparr> url = API_BASE @ path,
                                http_method = opt_method options,
                                headers = (''Authorization'', ''Bearer '' @ template token)
                                          # opt_headers options,
                                body = opt_body options \<rparr> d0 of
                   (Inl e, d1) \<Rightarrow> (Inl e, d1)
                 | (Inr response, d1) \<Rightarrow>
                     if \<not> ok response then (Inl (api_error pf response), d1)
                     else if body_text response = [] then (Inr JNull, d1)
                     else (case parse pf (body_text response) of
                             None \<Rightarrow> (Inr JNull, d1)
                           | Some j \<Rightarrow> (Inr j, d1)))))"

subsection \<open>Finding or creating the data file and the attachments folder\<close>

definition json_request :: "json \<Rightarrow> platform \<Rightarrow> request_options" where
  "json_request metadata pf =
     \<lparr> opt_method = Some ''POST'',
       opt_headers = [(''Content-Type'', ''application/json'')],
       opt_body = Some (Text (stringify pf metadata)) \<rparr>"

text \<open>\<open>result?.files?.length > 0\<close> and \<open>result.files[0].id\<close>.\<close>

definition has_files :: "json \<Rightarrow> bool" where
  "has_files result =
     (case js_length (opt_prop (Some result) ''files'') of None \<Rightarrow> False | Some n \<Rightarrow> 0 < n)"

definition first_file_id :: "json \<Rightarrow> exn + json option" where
  "first_file_id result = get_prop (js_first (opt_prop (Some result) ''files'')) ''id''"

definition no_folder_error :: exn where
  "no_folder_error = Error ''No folder selected. Please select a folder in Settings.''"

definition getOrCreateDataFile :: "platform \<Rightarrow> string \<Rightarrow> drive \<Rightarrow> (exn + json option) \<times> drive" where
  "getOrCreateDataFile pf domain d =
     (if js_truthy (fileId d) then (Inr (fileId d), d)
      else
        (case getSavedFolder domain (store d) of
           None \<Rightarrow> (Inl no_folder_error, d)
         | Some folder \<Rightarrow>
             (let DATA_FILE = domain @ ''-data.json'';
                  query = ''name='' @ quoted DATA_FILE @ '' and '' @ quoted (folder_id folder)
                          @ '' in parents and trashed=false''
              in case apiRequest pf (''/drive/v3/files?q='' @ encodeURIComponent pf query) no_options d of
                   (Inl e, d1) \<Rightarrow> (Inl e, d1)
                 | (Inr searchResult, d1) \<Rightarrow>
                     if has_files searchResult then
                       (case first_file_id searchResult of
                          Inl e \<Rightarrow> (Inl e, d1)
                        | Inr fid \<Rightarrow> (Inr fid, d1\<lparr> fileId := fid \<rparr>))
                     else
                       (let metadata = JObj [(''name'', JStr DATA_FILE),
                                             (''parents'', JArr [JStr (folder_id folder)]),
                                             (''mimeType'', JStr ''application/json'')]
                        in case apiRequest pf ''/drive/v3/files'' (json_request metadata pf) d1 of
                             (Inl e, d2) \<Rightarrow> (Inl e, d2)
                           | (Inr createResult, d2) \<Rightarrow>
                               (case get_prop (Some createResult) ''id'' of
                                  Inl e \<Rightarrow> (Inl e, d2)
                                | Inr fid \<Rightarrow> (Inr fid, d2\<lparr> fileId := fid \<rparr>))))))"

definition folder_mime :: string where
  "folder_mime = ''application/vnd.google-apps.folder''"

text \<open>One level of the attachments path: find the folder \<open>name\<close> under \<open>parent\<close>, or create it.\<close>

definition find_or_create_folder ::
  "platform \<Rightarrow> string \<Rightarrow> json option \<Rightarrow> drive \<Rightarrow> (exn + json option) \<times> drive" where
  "find_or_create_folder pf name parent d =
     (let query = ''name='' @ quoted name @ '' and '' @ quoted (js_template pf parent)
                  @ '' in parents and mimeType='' @ quoted folder_mime @ '' and trashed=false''
      in case apiRequest pf (''/drive/v3/files?q='' @ encodeURIComponent pf query) no_options d of
           (Inl e, d1) \<Rightarrow> (Inl e, d1)
         | (Inr found, d1) \<Rightarrow>
             if has_files found then
               (case first_file_id found of
                  Inl e \<Rightarrow> (Inl e, d1)
                | Inr fid \<Rightarrow> (Inr fid, d1))
             else
               (let metadata = JObj [(''name'', JStr name),
                                     (''parents'', JArr [or_undefined parent]),
                                     (''mimeType'', JStr folder_mime)]
                in case apiRequest pf ''/drive/v3/files'' (json_request metadata pf) d1 of
                     (Inl e, d2) \<Rightarrow> (Inl e, d2)
                   | (Inr createResult, d2) \<Rightarrow>
                       (case get_prop (Some createResult) ''id'' of
                          Inl e \<Rightarrow> (Inl e, d2)
                        | Inr fid \<Rightarrow> (Inr fid, d2))))"

definition getOrCreateAttachmentsFolder ::
  "platform \<Rightarrow> string \<Rightarrow> drive \<Rightarrow> (exn + json option) \<times> drive" where
  "getOrCreateAttachmentsFolder pf domain d =
     (if js_truthy (attachmentsFolderId d) then (Inr (attachmentsFolderId d), d)
      else
        (case getSavedFolder domain (store d) of
           None \<Rightarrow> (Inl no_folder_error, d)
         | Some folder \<Rightarrow>
             (case find_or_create_folder pf ''attachments'' (Some (JStr (folder_id folder))) d of
                (Inl e, d1) \<Rightarrow> (Inl e, d1)
              | (Inr attachmentsParent, d1) \<Rightarrow>
                  (case find_or_create_folder pf domain attachmentsParent d1 of
                     (Inl e, d2) \<Rightarrow> (Inl e, d2)
                   | (Inr fid, d2) \<Rightarrow> (Inr fid, d2\<lparr> attachmentsFolderId := fid \<rparr>)))))"

subsection \<open>fetch and push\<close>

record drive_data =
  file_data :: json
  file_lastModified :: json

definition no_data :: drive_data where
  "no_data = \<lparr> file_data = JNull, file_lastModified = JNull \<rparr>"

text \<open>\<open>fetch()\<close>: the lookup of the file stands before the \<open>try\<close>, the download inside it.\<close>

definition fetch :: "platform \<Rightarrow> string \<Rightarrow> drive \<Rightarrow> (exn + drive_data) \<times> drive" where
  "fetch pf domain d =
     (case getOrCreateDataFile pf domain d of
        (Inl e, d1) \<Rightarrow> (Inl e, d1)
      | (Inr fid, d1) \<Rightarrow>
          (case apiRequest pf (''/drive/v3/files/'' @ js_template pf fid @ ''?alt=media'') no_options d1 of
             (Inl err, d2) \<Rightarrow> (Inr no_data, d2)
           | (Inr response, d2) \<Rightarrow>
               if \<not> js_truthy (Some response) \<or> \<not> is_object response then (Inr no_data, d2)
               else (Inr \<lparr> file_data = or_null (js_prop response ''data''),
                           file_lastModified = or_null (js_prop response ''lastModified'') \<rparr>, d2)))"

record push_data =
  push_version :: "json option"
  push_payload :: "json option"
  push_lastModified :: "string option"

text \<open>
  The object that \<open>push\<close> uploads; \<open>JSON.stringify\<close> leaves out a property whose value is
  \<open>undefined\<close>.
\<close>

definition push_document :: "platform \<Rightarrow> string \<Rightarrow> push_data \<Rightarrow> int \<Rightarrow> json" where
  "push_document pf domain syncData now =
     JObj ([(''domain'', JStr domain),
            (''version'', if js_truthy (push_version syncData) then or_null (push_version syncData)
                          else JNum 1)]
           @ (case push_payload syncData of None \<Rightarrow> [] | Some v \<Rightarrow> [(''data'', v)])
           @ [(''lastModified'', JStr (if truthy (push_lastModified syncData)
                                       then template (push_lastModified syncData)
                                       else iso_string pf now))])"

definition push :: "platform \<Rightarrow> string \<Rightarrow> push_data \<Rightarrow> drive \<Rightarrow> (exn + bool) \<times> drive" where
  "push pf domain syncData d =
     (case getOrCreateDataFile pf domain d of
        (Inl e, d1) \<Rightarrow> (Inl e, d1)
      | (Inr fid, d1) \<Rightarrow>
          (case getToken ''google'' (clock d1) (store d1) of
             (token, st) \<Rightarrow>
               (case send pf
                       \<lparr> url = ''https://www.googleapis.com/upload/drive/v3/files/''
                               @ js_template pf fid @ ''?uploadType=multipart'',
                         http_method = Some ''PATCH'',
                         headers = [(''Authorization'', ''Bearer '' @ template token)],
                         body = Some (Multipart
                                  (stringify pf (JObj [(''mimeType'', JStr ''application/json'')]))
                                  (stringify pf (push_document pf domain syncData (clock d1)))) \<rparr>
                       (d1\<lparr> store := st \<rparr>) of
                  (Inl e, d2) \<Rightarrow> (Inl e, d2)
                | (Inr response, d2) \<Rightarrow>
                    if \<not> ok response then (Inl (Error ''Failed to upload data to Google Drive''), d2)
                    else (Inr True, d2))))"

subsection \<open>Attachments\<close>

text \<open>\<open>indexOf\<close> of a character (-1 when it does not occur) and \<open>substring\<close>.\<close>

fun indexOf :: "string \<Rightarrow> char \<Rightarrow> int" where
  "indexOf [] c = - 1"
| "indexOf (x # xs) c = (if x = c then 0 else (let i = indexOf xs c in if i < 0 then - 1 else i + 1))"

definition substring :: "string \<Rightarrow> int \<Rightarrow> int \<Rightarrow> string" where
  "substring s start stop =
     (let n = int (length s);
          a = max 0 (min n start);
          b = max 0 (min n stop);
          lo = min a b;
          hi = max a b
      in take (nat (hi - lo)) (drop (nat lo) s))"

definition substring_from :: "string \<Rightarrow> int \<Rightarrow> string" where
  "substring_from s start = substring s start (int (length s))"

text \<open>The name under which \<open>uploadAttachment\<close> stores a file: \<open>`${attachmentId}-${filename}`\<close>.\<close>

definition attachment_name :: "string \<Rightarrow> string \<Rightarrow> string" where
  "attachment_name attachmentId filename = attachmentId @ ''-'' @ filename"

text \<open>The two fields that \<open>listAttachments\<close> reads back from a stored name.\<close>

definition name_id :: "string \<Rightarrow> string" where
  "name_id name =
     (let dashIndex = indexOf name CHR ''-''
      in if dashIndex > 0 then substring name 0 dashIndex else name)"

definition name_filename :: "string \<Rightarrow> string" where
  "name_filename name =
     (let dashIndex = indexOf name CHR ''-''
      in if dashIndex > 0 then substring_from name (dashIndex + 1) else name)"

definition uploadAttachment ::
  "platform \<Rightarrow> string \<Rightarrow> string \<Rightarrow> string \<Rightarrow> string \<Rightarrow> string option \<Rightarrow> drive
     \<Rightarrow> (exn + json option) \<times> drive" where
  "uploadAttachment pf domain attachmentId filename blob mimeType d =
     (case getOrCreateAttachmentsFolder pf domain d of
        (Inl e, d1) \<Rightarrow> (Inl e, d1)
      | (Inr folderId, d1) \<Rightarrow>
          (let metadata = JObj ([(''name'', JStr (attachment_name attachmentId filename)),
                                 (''parents'', JArr [or_undefined folderId]),
                                 (''mimeType'', JStr (if truthy mimeType then template mimeType
                                                      else ''application/octet-stream''))])
           in case getToken ''google'' (clock d1) (store d1) of
                (token, st) \<Rightarrow>
                  (case send pf
                          \<lparr> url = ''https://www.googleapis.com/upload/drive/v3/files?uploadType=multipart'',
                            http_method = Some ''POST'',
                            headers = [(''Authorization'', ''Bearer '' @ template token)],
                            body = Some (Multipart (stringify pf metadata) blob) \<rparr>
                          (d1\<lparr> store := st \<rparr>) of
                     (Inl e, d2) \<Rightarrow> (Inl e, d2)
                   | (Inr response, d2) \<Rightarrow>
                       if \<not> ok response then (Inl (Error ''Failed to upload attachment''), d2)
                       else
                         (case parse pf (body_text response) of
                            None \<Rightarrow> (Inl (SyntaxError ''Unexpected token''), d2)
                          | Some result \<Rightarrow>
                              (case get_prop (Some result) ''id'' of
                                 Inl e \<Rightarrow> (Inl e, d2)
                               | Inr rid \<Rightarrow> (Inr rid, d2))))))"

definition downloadAttachment :: "platform \<Rightarrow> string \<Rightarrow> drive \<Rightarrow> (exn + string) \<times> drive" where
  "downloadAttachment pf remoteId d =
     (case getToken ''google'' (clock d) (store d) of
        (token, st) \<Rightarrow>
          (case send pf
                  \<lparr> url = ''https://www.googleapis.com/drive/v3/files/'' @ remoteId @ ''?alt=media'',
                    http_method = None,
                    headers = [(''Authorization'', ''Bearer '' @ template token)],
                    body = None \<rparr>
                  (d\<lparr> store := st \<rparr>) of
             (Inl e, d1) \<Rightarrow> (Inl e, d1)
           | (Inr response, d1) \<Rightarrow>
               if \<not> ok response then (Inl (Error ''Failed to download attachment''), d1)
               else (Inr (body_text response), d1)))"

definition deleteAttachment :: "platform \<Rightarrow> string \<Rightarrow> drive \<Rightarrow> (exn + unit) \<times> drive" where
  "deleteAttachment pf remoteId d =
     (case apiRequest pf (''/drive/v3/files/'' @ remoteId)
             \<lparr> opt_method = Some ''DELETE'', opt_headers = [], opt_body = None \<rparr> d of
        (Inl e, d1) \<Rightarrow> (Inl e, d1)
      | (Inr r, d1) \<Rightarrow> (Inr (), d1))"

record attachment =
  att_id :: string
  remoteId :: "json option"
  filename :: string
  mimeType :: "json option"
  att_size :: "int option"

text \<open>
  \<open>(result.files || []).map(f)\<close>: \<open>result\<close> itself must not be \<open>null\<close>, and a truthy
  \<open>files\<close> is an array (any other value has no \<open>map\<close>).
\<close>

definition files_of :: "json \<Rightarrow> exn + json list" where
  "files_of result =
     (case get_prop (Some result) ''files'' of
        Inl e \<Rightarrow> Inl e
      | Inr fs \<Rightarrow>
          if \<not> js_truthy fs then Inr []
          else (case fs of Some (JArr xs) \<Rightarrow> Inr xs
                | _ \<Rightarrow> Inl (TypeError ''map is not a function'')))"

text \<open>\<open>file.name\<close> as the string whose \<open>indexOf\<close> and \<open>replace\<close> the callbacks call.\<close>

definition file_name :: "json \<Rightarrow> exn + string" where
  "file_name file =
     (case get_prop (Some file) ''name'' of
        Inl e \<Rightarrow> Inl e
      | Inr (Some (JStr s)) \<Rightarrow> Inr s
      | Inr v \<Rightarrow> Inl (TypeError ''file.name has no such method''))"

text \<open>\<open>xs.map(f)\<close> for a callback that may throw.\<close>

fun map_throwing :: "('a \<Rightarrow> exn + 'b) \<Rightarrow> 'a list \<Rightarrow> exn + 'b list" where
  "map_throwing f [] = Inr []"
| "map_throwing f (x # xs) =
     (case f x of
        Inl e \<Rightarrow> Inl e
      | Inr y \<Rightarrow> (case map_throwing f xs of Inl e \<Rightarrow> Inl e | Inr ys \<Rightarrow> Inr (y # ys)))"

definition attachment_of :: "platform \<Rightarrow> json \<Rightarrow> exn + attachment" where
  "attachment_of pf file =
     (case file_name file of
        Inl e \<Rightarrow> Inl e
      | Inr name \<Rightarrow>
          Inr \<lparr> att_id = name_id name,
                remoteId = js_prop file ''id'',
                filename = name_filename name,
                mimeType = js_prop file ''mimeType'',
                att_size = parseInt pf (js_prop file ''size'') \<rparr>)"

definition listAttachments :: "platform \<Rightarrow> string \<Rightarrow> drive \<Rightarrow> (exn + attachment list) \<times> drive" where
  "listAttachments pf domain d =
     (case getOrCreateAttachmentsFolder pf domain d of
        (Inl e, d1) \<Rightarrow> (Inl e, d1)
      | (Inr folderId, d1) \<Rightarrow>
          (let query = quoted (js_template pf folderId) @ '' in parents and trashed=false''
           in case apiRequest pf (''/drive/v3/files?q='' @ encodeURIComponent pf query
                                  @ ''&fields=files(id,name,mimeType,size)'') no_options d1 of
                (Inl e, d2) \<Rightarrow> (Inl e, d2)
              | (Inr result, d2) \<Rightarrow>
                  (case files_of result of
                     Inl e \<Rightarrow> (Inl e, d2)
                   | Inr files \<Rightarrow> (map_throwing (attachment_of pf) files, d2))))"

subsection \<open>Aggregation over the domains\<close>

text \<open>\<open>s.replace(pattern, replacement)\<close> with a string pattern: the first occurrence only.\<close>

fun replace_first :: "string \<Rightarrow> string \<Rightarrow> string \<Rightarrow> string" where
  "replace_first pat rep [] = (if pat = [] then rep else [])"
| "replace_first pat rep (c # cs) =
     (if take (length pat) (c # cs) = pat then rep @ drop (length pat) (c # cs)
      else c # replace_first pat rep cs)"

record domain_file =
  file_domain :: string
  domain_fileId :: "json option"

definition domain_file_of :: "json \<Rightarrow> exn + domain_file" where
  "domain_file_of file =
     (case file_name file of
        Inl e \<Rightarrow> Inl e
      | Inr name \<Rightarrow>
          Inr \<lparr> file_domain = replace_first ''-data.json'' [] name,
                domain_fileId = js_prop file ''id'' \<rparr>)"

definition listAllDomainFiles :: "platform \<Rightarrow> string \<Rightarrow> drive \<Rightarrow> (exn + domain_file list) \<times> drive" where
  "listAllDomainFiles pf domain d =
     (case getSavedFolder domain (store d) of
        None \<Rightarrow> (Inr [], d)
      | Some folder \<Rightarrow>
          (let query = quoted (folder_id folder) @ '' in parents and name contains ''
                       @ quoted ''-data.json'' @ '' and trashed=false''
           in case apiRequest pf (''/drive/v3/files?q='' @ encodeURIComponent pf query
                                  @ ''&fields=files(id,name)'') no_options d of
                (Inl e, d1) \<Rightarrow> (Inl e, d1)
              | (Inr result, d1) \<Rightarrow>
                  (case files_of result of
                     Inl e \<Rightarrow> (Inl e, d1)
                   | Inr files \<Rightarrow> (map_throwing domain_file_of files, d1))))"

definition fetchDomainData :: "platform \<Rightarrow> string \<Rightarrow> drive \<Rightarrow> json \<times> drive" where
  "fetchDomainData pf domainFileId d =
     (case apiRequest pf (''/drive/v3/files/'' @ domainFileId @ ''?alt=media'') no_options d of
        (Inl e, d1) \<Rightarrow> (JNull, d1)
      | (Inr response, d1) \<Rightarrow> (response, d1))"

section \<open>Auxiliary notions for the statements about the merge engine\<close>

text \<open>The record with a given id in an array: \<open>xs.find((x) => x.id === k)\<close>.\<close>

definition find_id :: "string \<Rightarrow> 'a item_scheme list \<Rightarrow> 'a item_scheme option" where
  "find_id k xs = find (\<lambda>x. item_id x = k) xs"

text \<open>
  What the second loop of \<open>mergeArrays\<close> does to the entry of one key when it meets a
  remote item with that key.
\<close>

definition resolve ::
  "date_parser \<Rightarrow> 'a item_scheme option \<Rightarrow> 'a item_scheme \<Rightarrow> 'a item_scheme option" where
  "resolve D cur r =
     (case cur of
        None \<Rightarrow> Some r
      | Some l \<Rightarrow> if js_gt (getTime D (updatedAt r)) (getTime D (updatedAt l)) then Some r else Some l)"

text \<open>The invariant of the Map built by \<open>mergeArrays\<close>: every entry is filed under its own id.\<close>

definition keyed :: "(string, 'a item_scheme) js_map \<Rightarrow> bool" where
  "keyed m = (distinct (map fst m) \<and> list_all (\<lambda>(k, v). item_id v = k) m)"

text \<open>An entry that a remote item can no longer replace.\<close>

definition settled :: "date_parser \<Rightarrow> 'a item_scheme option \<Rightarrow> 'a item_scheme \<Rightarrow> bool" where
  "settled D cur r =
     (case cur of
        None \<Rightarrow> False
      | Some l \<Rightarrow> \<not> js_gt (getTime D (updatedAt r)) (getTime D (updatedAt l)))"

text \<open>
  Two snapshots of matching shape: both arrays, both objects with an \<open>items\<close> array, or
  both objects without one.
\<close>

fun matching_shape :: "'a snapshot \<Rightarrow> 'a snapshot \<Rightarrow> bool" where
  "matching_shape (Records xs) (Records ys) = True"
| "matching_shape (Document u (Some xs) f) (Document u' (Some ys) f') = True"
| "matching_shape (Document u None f) (Document u' None f') = True"
| "matching_shape a b = False"

subsection \<open>Sample data\<close>

text \<open>A record type with one more property, and the conflicting edit of the specification.\<close>

record idea = item +
  title :: string

definition sample_dates :: date_parser where
  "sample_dates s =
     (if s = ''2025-01-01T00:00:05Z'' then Some 1735689605000
      else if s = ''2025-01-01T00:00:10Z'' then Some 1735689610000
      else None)"

definition idea_local :: idea where
  "idea_local = \<lparr> item_id = ''x'', updatedAt = Some ''2025-01-01T00:00:10Z'', title = ''A'' \<rparr>"

definition idea_remote :: idea where
  "idea_remote = \<lparr> item_id = ''x'', updatedAt = Some ''2025-01-01T00:00:05Z'', title = ''B'' \<rparr>"

definition idea_new :: idea where
  "idea_new = \<lparr> item_id = ''y'', updatedAt = None, title = ''C'' \<rparr>"

section \<open>Auxiliary notions for the statements about the OAuth handler\<close>

text \<open>The stored token is within five minutes of its expiry (or past it).\<close>

definition within_expiry_buffer :: "int \<Rightarrow> token_record \<Rightarrow> bool" where
  "within_expiry_buffer now r = (expiry r - now < 5 * 60 * 1000)"

text \<open>
  The exchange that \<open>handleCallback\<close> makes for a code and a saved session: none for a
  provider that does not pass the guard on \<open>OAUTH_CONFIG\<close>, otherwise the answer of the
  token endpoint. It yields a token when the response is ok and its body is neither
  unreadable nor \<open>null\<close>.
\<close>

definition token_exchange ::
  "token_endpoint \<Rightarrow> string \<Rightarrow> string \<Rightarrow> string \<Rightarrow> string option \<Rightarrow> string \<Rightarrow> oauth_session
     \<Rightarrow> exchange option" where
  "token_exchange endpoint provider clientId redirectUri clientSecret cd saved =
     (case OAUTH_CONFIG provider of
        None \<Rightarrow> None
      | Some config \<Rightarrow> Some (endpoint (tokenParams config clientId cd redirectUri clientSecret saved)))"

definition yields_token :: "exchange option \<Rightarrow> bool" where
  "yields_token x = (case x of Some (Success (Body token)) \<Rightarrow> True | _ \<Rightarrow> False)"

text \<open>
  The causes for which a callback is refused: an \<open>error\<close> parameter, a missing \<open>code\<close> or
  \<open>state\<close> (an empty value counts as missing, as \<open>if (error)\<close> and \<open>!code\<close> read it), no
  saved session that is still valid, a saved \<open>state\<close> other than the callback's, or a
  token exchange that yields no token.
\<close>

definition callback_refused ::
  "token_endpoint \<Rightarrow> int \<Rightarrow> string \<Rightarrow> string \<Rightarrow> string \<Rightarrow> string option \<Rightarrow> browser \<Rightarrow> bool" where
  "callback_refused endpoint now provider clientId redirectUri clientSecret b =
     (truthy (q_error (search b)) \<or> \<not> truthy (q_code (search b)) \<or>
      \<not> truthy (q_state (search b)) \<or>
      (case fst (getOAuthState provider now (localStorage b)) of
         None \<Rightarrow> True
       | Some saved \<Rightarrow>
           Some (state saved) \<noteq> q_state (search b) \<or>
           \<not> yields_token
               (token_exchange endpoint provider clientId redirectUri clientSecret
                  (template (q_code (search b))) saved)))"

text \<open>
  A storage that holds a session only for providers that pass the guard: \<open>startAuth\<close>,
  the one writer of sessions, saves none for another provider.
\<close>

definition sessions_pass_guard :: "storage \<Rightarrow> bool" where
  "sessions_pass_guard st = (\<forall>p. oauth_sessions st p \<noteq> None \<longrightarrow> OAUTH_CONFIG p \<noteq> None)"

text \<open>The token record that \<open>saveToken\<close> writes for a token response.\<close>

definition token_record_of :: "token_json \<Rightarrow> int \<Rightarrow> token_record" where
  "token_record_of token now =
     \<lparr> accessToken = access_token token,
       refreshToken = refresh_token token,
       expiry = now + (case expires_in token of None \<Rightarrow> 3600
                       | Some n \<Rightarrow> if n = 0 then 3600 else n) * 1000 \<rparr>"

subsection \<open>Sample data\<close>

definition sample_session :: oauth_session where
  "sample_session = \<lparr> state = ''s1'', verifier = ''v1'', timestamp = 1000 \<rparr>"

definition sample_token :: token_json where
  "sample_token = \<lparr> access_token = ''tok'', refresh_token = None, expires_in = Some 3600 \<rparr>"

text \<open>
  Three token endpoints: one grants every request, one answers with status ok and the
  body \<open>null\<close>, one with status ok and a body that is not JSON.
\<close>

definition granting_endpoint :: token_endpoint where
  "granting_endpoint req = Success (Body sample_token)"

definition null_body_endpoint :: token_endpoint where
  "null_body_endpoint req = Success NullBody"

definition garbled_body_endpoint :: token_endpoint where
  "garbled_body_endpoint req = Success (Unreadable (SyntaxError ''Unexpected token''))"

text \<open>A page called back with a code and the state of the session saved for a provider.\<close>

definition callback_page :: "string \<Rightarrow> browser" where
  "callback_page provider =
     \<lparr> localStorage = \<lparr> oauth_sessions = [provider \<mapsto> sample_session],
                        tokens = Map.empty, syncFolders = Map.empty \<rparr>,
       search = \<lparr> q_code = Some ''c1'', q_state = Some ''s1'', q_error = None \<rparr> \<rparr>"

text \<open>A storage with one access token for google, expiring at 1000000 ms.\<close>

definition sample_tokens :: "string option \<Rightarrow> storage" where
  "sample_tokens refresh =
     \<lparr> oauth_sessions = Map.empty,
       tokens = [''google'' \<mapsto> \<lparr> accessToken = ''tok'', refreshToken = refresh, expiry = 1000000 \<rparr>],
       syncFolders = Map.empty \<rparr>"

section \<open>Auxiliary notions for the statements about the provider\<close>

text \<open>Whether \<open>getToken('google')\<close> gives a usable token in a state, and the state it leaves.\<close>

definition authenticated :: "drive \<Rightarrow> bool" where
  "authenticated d = truthy (fst (getToken ''google'' (clock d) (store d)))"

definition after_getToken :: "drive \<Rightarrow> drive" where
  "after_getToken d = d\<lparr> store := snd (getToken ''google'' (clock d) (store d)) \<rparr>"

definition not_authenticated_error :: exn where
  "not_authenticated_error = Error ''Not authenticated with Google''"

text \<open>The download that \<open>fetch\<close> sends for a file id, and the answer of the network to it.\<close>

definition download_request :: "platform \<Rightarrow> json option \<Rightarrow> drive \<Rightarrow> request" where
  "download_request pf fid d =
     \<lparr> url = API_BASE @ ''/drive/v3/files/'' @ js_template pf fid @ ''?alt=media'',
       http_method = None,
       headers = [(''Authorization'',
                   ''Bearer '' @ template (fst (getToken ''google'' (clock d) (store d))))],
       body = None \<rparr>"

definition download_answer :: "platform \<Rightarrow> json option \<Rightarrow> drive \<Rightarrow> exn + http_response" where
  "download_answer pf fid d = window_fetch pf (requests d) (download_request pf fid d)"

text \<open>
  The remote data object gives no document: the download is rejected, the response is not
  ok (the object is missing), the content is empty, or the content is not JSON.
\<close>

definition no_document :: "platform \<Rightarrow> exn + http_response \<Rightarrow> bool" where
  "no_document pf answer =
     (case answer of
        Inl e \<Rightarrow> True
      | Inr response \<Rightarrow>
          \<not> ok response \<or> body_text response = [] \<or> parse pf (body_text response) = None)"

text \<open>The remote data object holds the JSON document \<open>doc\<close>.\<close>

definition holds_document :: "platform \<Rightarrow> exn + http_response \<Rightarrow> json \<Rightarrow> bool" where
  "holds_document pf answer doc =
     (case answer of
        Inl e \<Rightarrow> False
      | Inr response \<Rightarrow>
          ok response \<and> body_text response \<noteq> [] \<and> parse pf (body_text response) = Some doc)"

subsection \<open>Sample data\<close>

text \<open>
  A backend on first use: the first request (the search) finds no file, the second (the
  creation) answers with the new id, every later one (the download) with empty content.
  The parser knows the three bodies that occur.
\<close>

definition first_use_parse :: "string \<Rightarrow> json option" where
  "first_use_parse s =
     (if s = ''no files'' then Some (JObj [(''files'', JArr [])])
      else if s = ''created f1'' then Some (JObj [(''id'', JStr ''f1'')])
      else if s = ''document'' then
        Some (JObj [(''domain'', JStr ''seneschal''), (''version'', JNum 1),
                    (''data'', JArr [JObj [(''id'', JStr ''x'')]]),
                    (''lastModified'', JStr ''2025-01-01T00:00:10Z'')])
      else None)"

definition first_use_fetch :: "string \<Rightarrow> request list \<Rightarrow> request \<Rightarrow> exn + http_response" where
  "first_use_fetch content log req =
     (if length log = 0 then Inr \<lparr> ok = True, body_text = ''no files'' \<rparr>
      else if length log = 1 then Inr \<lparr> ok = True, body_text = ''created f1'' \<rparr>
      else Inr \<lparr> ok = True, body_text = content \<rparr>)"

definition first_use_platform :: "string \<Rightarrow> platform" where
  "first_use_platform content =
     \<lparr> parse = first_use_parse,
       stringify = (\<lambda>j. ''json''),
       to_string = (\<lambda>j. ''value''),
       encodeURIComponent = (\<lambda>s. s),
       parseInt = (\<lambda>v. None),
       iso_string = (\<lambda>t. ''2025-01-01T00:00:10Z''),
       window_fetch = first_use_fetch content \<rparr>"

text \<open>
  A backend that finds no data file and refuses to create one: the search is answered as
  before, every later request with a response that is not ok.
\<close>

definition refused_create_fetch :: "request list \<Rightarrow> request \<Rightarrow> exn + http_response" where
  "refused_create_fetch log req =
     (if length log = 0 then Inr \<lparr> ok = True, body_text = ''no files'' \<rparr>
      else Inr \<lparr> ok = False, body_text = ''forbidden'' \<rparr>)"

definition refused_create_platform :: platform where
  "refused_create_platform = (first_use_platform [])\<lparr> window_fetch := refused_create_fetch \<rparr>"

text \<open>A network that is down: every request is rejected.\<close>

definition offline_platform :: platform where
  "offline_platform =
     (first_use_platform [])\<lparr> window_fetch := (\<lambda>log req. Inl (TypeError ''Failed to fetch'')) \<rparr>"

text \<open>A provider state with a chosen folder, with or without a token, and given cached ids.\<close>

definition sample_drive :: "bool \<Rightarrow> json option \<Rightarrow> drive" where
  "sample_drive with_token cached =
     \<lparr> store = \<lparr> oauth_sessions = Map.empty,
                 tokens = (if with_token
                           then [''google'' \<mapsto> \<lparr> accessToken = ''tok'', refreshToken = None,
                                                 expiry = 1000000 \<rparr>]
                           else Map.empty),
                 syncFolders = [''seneschal'' \<mapsto> \<lparr> folder_id = ''folder1'', folder_name = ''sync'' \<rparr>] \<rparr>,
       clock = 0,
       fileId = cached,
       attachmentsFolderId = cached,
       requests = [] \<rparr>"

section \<open>Auxiliary notions for the statements about the sync engine\<close>

text \<open>Listeners that never throw, and an answer of the provider that always comes back.\<close>

definition quiet :: "(sync_status \<Rightarrow> string option \<Rightarrow> (unit, 'w) effect) list \<Rightarrow> bool" where
  "quiet ls = (\<forall>l \<in> set ls. \<forall>s e w. fst (l s e w) = Inr ())"

definition answers :: "(bool, 'w) effect \<Rightarrow> bool" where
  "answers q = (\<forall>w. \<exists>b. fst (q w) = Inr b)"

subsection \<open>Sample engine\<close>

text \<open>
  A small world: a local and a remote snapshot, the two answers of the provider, the
  stored last-sync value and the log of the notifications the listeners received.
\<close>

record device =
  local_store :: "unit idea_ext snapshot option"
  remote_store :: "unit idea_ext snapshot option"
  connected :: bool
  folder_chosen :: bool
  last_sync :: "string option"
  notified :: "(sync_status \<times> string option) list"

definition device_config :: "(unit idea_ext, device) sync_config" where
  "device_config =
     \<lparr> provider_isConnected = (\<lambda>w. (Inr (connected w), w)),
       provider_isFolderConfigured = (\<lambda>w. (Inr (folder_chosen w), w)),
       provider_fetch = (\<lambda>w. (Inr \<lparr> data = remote_store w, lastModified = None \<rparr>, w)),
       provider_push = (\<lambda>d w. (Inr (), w\<lparr> remote_store := data d \<rparr>)),
       getLocalData = (\<lambda>w. (Inr (local_store w), w)),
       setLocalData = (\<lambda>d w. (Inr (), w\<lparr> local_store := d \<rparr>)),
       getLastSync = (\<lambda>w. (Inr (last_sync w), w)),
       setLastSync = (\<lambda>t w. (Inr (), w\<lparr> last_sync := Some t \<rparr>)),
       toISOString = (\<lambda>w. ''2025-01-01T00:00:10Z''),
       parseDate = sample_dates \<rparr>"

definition recording_listener :: "sync_status \<Rightarrow> string option \<Rightarrow> (unit, device) effect" where
  "recording_listener s e w = (Inr (), w\<lparr> notified := notified w @ [(s, e)] \<rparr>)"

definition throwing_listener :: "sync_status \<Rightarrow> string option \<Rightarrow> (unit, device) effect" where
  "throwing_listener s e w = (Inl (Error ''listener failed''), w)"

definition sample_device :: "bool \<Rightarrow> bool \<Rightarrow> device" where
  "sample_device c f =
     \<lparr> local_store = Some (Records [idea_local]), remote_store = None,
       connected = c, folder_chosen = f, last_sync = None, notified = [] \<rparr>"

definition sample_engine ::
  "sync_status \<Rightarrow> (sync_status \<Rightarrow> string option \<Rightarrow> (unit, device) effect) list \<Rightarrow> device engine" where
  "sample_engine s ls = \<lparr> status = s, lastError = None, listeners = ls \<rparr>"

section \<open>Properties of the merge engine\<close>

subsection \<open>The insertion-ordered Map\<close>


lemma map_of_map_set: "map_of (map_set m k v) = (map_of m)(k \<mapsto> v)"
  by (induction m) (auto simp: fun_eq_iff)

lemma keys_map_set:
  "map fst (map_set m k v) = (if k \<in> set (map fst m) then map fst m else map fst m @ [k])"
  by (induction m) force+

lemma distinct_map_set: "distinct (map fst m) \<Longrightarrow> distinct (map fst (map_set m k v))"
  by (simp add: keys_map_set)

lemma set_map_set: "set (map_set m k v) \<subseteq> insert (k, v) (set m)"
  by (induction m) (auto split: if_splits)

lemma snd_set_map_set: "snd ` set (map_set m k v) \<subseteq> insert v (snd ` set m)"
  using set_map_set [of m k v] by force

lemma keyed_iff: "keyed m \<longleftrightarrow> distinct (map fst m) \<and> (\<forall>(k, v) \<in> set m. item_id v = k)"
  by (simp add: keyed_def list_all_iff)

lemma keyed_map_set: "keyed m \<Longrightarrow> keyed (map_set m (item_id v) v)"
  unfolding keyed_iff using set_map_set [of m "item_id v" v] distinct_map_set [of m "item_id v" v]
  by auto

lemma keyed_Nil: "keyed []"
  by (simp add: keyed_iff)

lemma seed_fold_keyed: "keyed m \<Longrightarrow> keyed (fold (\<lambda>item merged. map_set merged (item_id item) item) xs m)"
  by (induction xs arbitrary: m) (auto simp: keyed_map_set)

lemma keyed_seed: "keyed (seed_local xs)"
  by (simp add: seed_local_def seed_fold_keyed keyed_Nil)

lemma keyed_merge_remote_item: "keyed (fst st) \<Longrightarrow> keyed (fst (merge_remote_item D r st))"
  by (cases st) (auto simp: merge_remote_item_def Let_def keyed_map_set split: option.splits)

lemma keyed_fold_remote: "keyed (fst st) \<Longrightarrow> keyed (fst (fold (merge_remote_item D) rs st))"
  by (induction rs arbitrary: st) (auto simp: keyed_merge_remote_item)

lemma keyed_distinct_values: "keyed m \<Longrightarrow> distinct (map item_id (map_values m))"
proof -
  assume k: "keyed m"
  then have "map item_id (map_values m) = map fst m"
    by (induction m) (auto simp: keyed_iff map_values_def)
  with k show ?thesis by (simp add: keyed_iff)
qed

subsection \<open>One key at a time\<close>

lemma find_append:
  "find P (xs @ ys) = (case find P xs of None \<Rightarrow> find P ys | Some x \<Rightarrow> Some x)"
  by (induction xs) auto

lemma keyed_find: "keyed m \<Longrightarrow> find_id k (map_values m) = map_of m k"
proof (induction m)
  case Nil
  then show ?case by (simp add: find_id_def map_values_def)
next
  case (Cons p m)
  obtain k' v where p: "p = (k', v)" by (cases p)
  from Cons.prems have km: "keyed m" and kv: "item_id v = k'"
    by (auto simp: keyed_iff p)
  from Cons.IH [OF km] show ?case
    by (simp add: find_id_def map_values_def p kv)
qed

lemma seed_fold_lookup:
  "map_of (fold (\<lambda>item merged. map_set merged (item_id item) item) xs m) k =
     (case find_id k (rev xs) of None \<Rightarrow> map_of m k | Some x \<Rightarrow> Some x)"
proof (induction xs arbitrary: m)
  case Nil
  then show ?case by (simp add: find_id_def)
next
  case (Cons x xs)
  show ?case
    by (simp add: Cons.IH map_of_map_set find_id_def find_append split: option.splits)
qed

lemma seed_lookup: "map_get (seed_local xs) k = find_id k (rev xs)"
  by (simp add: map_get_def seed_local_def seed_fold_lookup split: option.splits)

lemma find_id_rev_distinct:
  "distinct (map item_id xs) \<Longrightarrow> find_id k (rev xs) = find_id k xs"
proof (induction xs)
  case Nil
  then show ?case by simp
next
  case (Cons x xs)
  then have ih: "find_id k (rev xs) = find_id k xs" by simp
  show ?case
  proof (cases "item_id x = k")
    case True
    with Cons.prems have "\<forall>y \<in> set xs. item_id y \<noteq> k" by (auto simp: image_iff)
    then have "find_id k (rev xs) = None"
      by (auto simp: find_id_def find_None_iff)
    with True show ?thesis by (simp add: find_id_def find_append)
  next
    case False
    with ih show ?thesis by (simp add: find_id_def find_append split: option.splits)
  qed
qed

lemma merge_remote_item_lookup:
  "map_of (fst (merge_remote_item D r st)) k =
     (if item_id r = k then resolve D (map_of (fst st) k) r else map_of (fst st) k)"
  by (cases st)
     (auto simp: merge_remote_item_def map_get_def resolve_def Let_def map_of_map_set
           split: option.splits)

lemma fold_remote_lookup:
  "map_of (fst (fold (merge_remote_item D) rs st)) k =
     fold (\<lambda>r cur. if item_id r = k then resolve D cur r else cur) rs (map_of (fst st) k)"
  by (induction rs arbitrary: st) (simp_all add: merge_remote_item_lookup)

lemma fold_resolve_absent:
  "\<forall>r \<in> set rs. item_id r \<noteq> k \<Longrightarrow>
     fold (\<lambda>r cur. if item_id r = k then resolve D cur r else cur) rs cur = cur"
  by (induction rs arbitrary: cur) auto

lemma fold_resolve_distinct:
  "distinct (map item_id rs) \<Longrightarrow>
     fold (\<lambda>r cur. if item_id r = k then resolve D cur r else cur) rs cur =
       (case find_id k rs of None \<Rightarrow> cur | Some b \<Rightarrow> resolve D cur b)"
proof (induction rs arbitrary: cur)
  case Nil
  then show ?case by (simp add: find_id_def)
next
  case (Cons r rs)
  show ?case
  proof (cases "item_id r = k")
    case True
    with Cons.prems have "\<forall>y \<in> set rs. item_id y \<noteq> k" by (auto simp: image_iff)
    then show ?thesis using True by (simp add: fold_resolve_absent find_id_def)
  next
    case False
    with Cons show ?thesis by (simp add: find_id_def)
  qed
qed

lemma keyed_merged: "keyed (fst (fold (merge_remote_item D) B (seed_local A, False)))"
  by (rule keyed_fold_remote) (simp add: keyed_seed)

lemma mergeArrays_find:
  "find_id k (local (mergeArrays D A B)) =
     fold (\<lambda>r cur. if item_id r = k then resolve D cur r else cur) B (find_id k (rev A))"
  using seed_lookup [of A k]
  by (simp add: mergeArrays_def Let_def keyed_find [OF keyed_merged] fold_remote_lookup map_get_def)

lemma mergeArrays_distinct: "distinct (map item_id (local (mergeArrays D A B)))"
  by (simp add: mergeArrays_def Let_def keyed_distinct_values [OF keyed_merged])

lemma find_id_None: "find_id k xs = None \<longleftrightarrow> k \<notin> item_id ` set xs"
  by (auto simp: find_id_def find_None_iff)

subsection \<open>The merged array\<close>

lemma values_seed_fold:
  "snd ` set m \<subseteq> S \<Longrightarrow> set xs \<subseteq> S \<Longrightarrow>
     snd ` set (fold (\<lambda>item merged. map_set merged (item_id item) item) xs m) \<subseteq> S"
proof (induction xs arbitrary: m)
  case Nil
  then show ?case by simp
next
  case (Cons x xs)
  have "snd ` set (map_set m (item_id x) x) \<subseteq> S"
    using snd_set_map_set [of m "item_id x" x] Cons.prems by auto
  with Cons show ?case by simp
qed

lemma values_merge_remote_item:
  "snd ` set (fst st) \<subseteq> S \<Longrightarrow> r \<in> S \<Longrightarrow> snd ` set (fst (merge_remote_item D r st)) \<subseteq> S"
proof -
  assume a: "snd ` set (fst st) \<subseteq> S" and r: "r \<in> S"
  have "snd ` set (map_set (fst st) (item_id r) r) \<subseteq> S"
    using snd_set_map_set [of "fst st" "item_id r" r] a r by blast
  with a show ?thesis
    by (cases st) (simp add: merge_remote_item_def Let_def split: option.splits)
qed

lemma values_fold_remote:
  "snd ` set (fst st) \<subseteq> S \<Longrightarrow> set rs \<subseteq> S \<Longrightarrow>
     snd ` set (fst (fold (merge_remote_item D) rs st)) \<subseteq> S"
proof (induction rs arbitrary: st)
  case Nil
  then show ?case by simp
next
  case (Cons r rs)
  from Cons.prems have "snd ` set (fst (merge_remote_item D r st)) \<subseteq> S"
    by (intro values_merge_remote_item) auto
  with Cons show ?case by simp
qed

lemma mergeArrays_subset: "set (local (mergeArrays D A B)) \<subseteq> set A \<union> set B"
proof -
  have "snd ` set (seed_local A) \<subseteq> set A \<union> set B"
    unfolding seed_local_def by (rule values_seed_fold) auto
  then have "snd ` set (fst (fold (merge_remote_item D) B (seed_local A, False))) \<subseteq> set A \<union> set B"
    by (intro values_fold_remote) auto
  then show ?thesis by (simp add: mergeArrays_def Let_def map_values_def)
qed

lemma fold_resolve_ids:
  "fold (\<lambda>r cur. if item_id r = k then resolve D cur r else cur) rs cur = None
     \<longleftrightarrow> cur = None \<and> k \<notin> item_id ` set rs"
  by (induction rs arbitrary: cur) (auto simp: resolve_def split: option.splits)

lemma ids_eq_find: "k \<in> set (map item_id xs) \<longleftrightarrow> find_id k xs \<noteq> None"
  by (simp add: find_id_None)

lemma mergeArrays_ids:
  "set (map item_id (local (mergeArrays D A B))) = set (map item_id A) \<union> set (map item_id B)"
proof (rule set_eqI)
  fix k
  have "find_id k (rev A) = None \<longleftrightarrow> k \<notin> item_id ` set A"
    by (simp add: find_id_None)
  then show "k \<in> set (map item_id (local (mergeArrays D A B)))
      \<longleftrightarrow> k \<in> set (map item_id A) \<union> set (map item_id B)"
    unfolding ids_eq_find mergeArrays_find fold_resolve_ids by (auto simp: find_id_None)
qed

text \<open>
  Claim C1. When no id occurs twice in the local array and none occurs twice in the remote
  array, the merged array holds exactly one record for each id of the union; the record
  kept for an id present on both sides is the remote one when its time is strictly
  greater, and the local one otherwise (also on a tie, and when a time is NaN); a record
  present on one side only is kept as it is.
\<close>

theorem mergeArrays_union_last_write_wins:
  assumes "distinct (map item_id A)" and "distinct (map item_id B)"
  shows "distinct (map item_id (local (mergeArrays D A B))) \<and>
         set (map item_id (local (mergeArrays D A B))) = set (map item_id A) \<union> set (map item_id B) \<and>
         (\<forall>k. find_id k (local (mergeArrays D A B)) =
            (case find_id k B of
               None \<Rightarrow> find_id k A
             | Some b \<Rightarrow>
                 (case find_id k A of
                    None \<Rightarrow> Some b
                  | Some a \<Rightarrow>
                      if js_gt (getTime D (updatedAt b)) (getTime D (updatedAt a))
                      then Some b else Some a)))"
proof -
  have "find_id k (local (mergeArrays D A B)) =
          (case find_id k B of
             None \<Rightarrow> find_id k A
           | Some b \<Rightarrow>
               (case find_id k A of
                  None \<Rightarrow> Some b
                | Some a \<Rightarrow>
                    if js_gt (getTime D (updatedAt b)) (getTime D (updatedAt a))
                    then Some b else Some a))" for k
    by (simp add: mergeArrays_find fold_resolve_distinct [OF assms(2)]
          find_id_rev_distinct [OF assms(1)] resolve_def split: option.splits)
  moreover note mergeArrays_distinct [of D A B] mergeArrays_ids [of D A B]
  ultimately show ?thesis by blast
qed

theorem mergeArrays_union_last_write_wins_witness:
  "distinct (map item_id [idea_local]) \<and> distinct (map item_id [idea_remote, idea_new]) \<and>
   find_id ''x'' (local (mergeArrays sample_dates [idea_local] [idea_remote, idea_new])) = Some idea_local \<and>
   find_id ''y'' (local (mergeArrays sample_dates [idea_local] [idea_remote, idea_new])) = Some idea_new \<and>
   find_id ''x'' (local (mergeArrays sample_dates [idea_remote] [idea_local])) = Some idea_local"
proof -
  have l: "distinct (map item_id [idea_local])" and r: "distinct (map item_id [idea_remote, idea_new])"
    and l': "distinct (map item_id [idea_remote])"
    by (simp_all add: idea_remote_def idea_new_def)
  note a = mergeArrays_union_last_write_wins [OF l r, of sample_dates]
  note b = mergeArrays_union_last_write_wins [OF l' l, of sample_dates]
  from a have "find_id ''x'' (local (mergeArrays sample_dates [idea_local] [idea_remote, idea_new])) = Some idea_local"
    by (simp add: find_id_def idea_local_def idea_remote_def idea_new_def sample_dates_def
          getTime_def js_gt_def)
  moreover from a have "find_id ''y'' (local (mergeArrays sample_dates [idea_local] [idea_remote, idea_new])) = Some idea_new"
    by (simp add: find_id_def idea_local_def idea_remote_def idea_new_def)
  moreover from b have "find_id ''x'' (local (mergeArrays sample_dates [idea_remote] [idea_local])) = Some idea_local"
    by (simp add: find_id_def idea_local_def idea_remote_def sample_dates_def getTime_def js_gt_def)
  ultimately show ?thesis using l r by blast
qed

text \<open>
  Claim C10. Whatever the two input arrays are, the ids of the merged array are pairwise
  distinct and each of its records is one of the records of the local or of the remote
  array; the merge builds no record. Duplicate ids in an input are allowed: while the Map
  is seeded, the last local record with an id is the one filed under it.
\<close>

theorem mergeArrays_selects_inputs:
  "distinct (map item_id (local (mergeArrays D A B))) \<and>
   set (local (mergeArrays D A B)) \<subseteq> set A \<union> set B \<and>
   (\<forall>k. map_get (seed_local A) k = find_id k (rev A))"
  by (simp add: mergeArrays_distinct mergeArrays_subset seed_lookup)

theorem mergeArrays_selects_inputs_witness:
  "local (mergeArrays sample_dates [idea_remote, idea_new, idea_local] [idea_new, idea_remote])
     = [idea_local, idea_new]"
proof -
  note mergeArrays_selects_inputs [of sample_dates "[idea_remote, idea_new, idea_local]" "[idea_new, idea_remote]"]
  then show ?thesis
    by (simp add: mergeArrays_def seed_local_def merge_remote_item_def map_get_def map_values_def
          local_only_item_def idea_local_def idea_remote_def idea_new_def sample_dates_def
          getTime_def js_gt_def)
qed

subsection \<open>Merging a second time\<close>

lemma map_set_absent: "k \<notin> fst ` set m \<Longrightarrow> map_set m k v = m @ [(k, v)]"
  by (induction m) auto

lemma seed_fold_keyed_append:
  "keyed (m0 @ m) \<Longrightarrow>
     fold (\<lambda>item merged. map_set merged (item_id item) item) (map snd m) m0 = m0 @ m"
proof (induction m arbitrary: m0)
  case Nil
  then show ?case by simp
next
  case (Cons p m)
  obtain k v where p: "p = (k, v)" by (cases p)
  from Cons.prems have kv: "item_id v = k" and fresh: "k \<notin> fst ` set m0"
    by (auto simp: keyed_iff p)
  from Cons.prems have "keyed ((m0 @ [(k, v)]) @ m)" by (simp add: p)
  from Cons.IH [OF this] show ?case
    by (simp add: p kv map_set_absent [OF fresh])
qed

lemma seed_of_keyed: "keyed m \<Longrightarrow> seed_local (map_values m) = m"
  using seed_fold_keyed_append [of "[]" m] by (simp add: seed_local_def map_values_def)

lemma js_gt_irrefl: "\<not> js_gt a a"
  by (simp add: js_gt_def split: option.splits)

lemma js_gt_trans: "js_gt a b \<Longrightarrow> js_gt b c \<Longrightarrow> js_gt a c"
  by (auto simp: js_gt_def split: option.splits)

lemma settled_resolve_self: "settled D (resolve D cur r) r"
  by (auto simp: settled_def resolve_def js_gt_irrefl split: option.splits)

lemma settled_resolve_other: "settled D cur r \<Longrightarrow> settled D (resolve D cur r') r"
  by (auto simp: settled_def resolve_def split: option.splits dest: js_gt_trans)

lemma settled_fold:
  "settled D cur r \<Longrightarrow>
     settled D (fold (\<lambda>r' c. if item_id r' = k then resolve D c r' else c) rs cur) r"
  by (induction rs arbitrary: cur) (auto simp: settled_resolve_other)

lemma settled_after:
  "r \<in> set rs \<Longrightarrow>
     settled D (fold (\<lambda>r' c. if item_id r' = item_id r then resolve D c r' else c) rs cur) r"
proof (induction rs arbitrary: cur)
  case Nil
  then show ?case by simp
next
  case (Cons x rs)
  show ?case
  proof (cases "r = x")
    case True
    then show ?thesis by (simp add: settled_fold settled_resolve_self)
  next
    case False
    with Cons.prems have "r \<in> set rs" by simp
    from Cons.IH [OF this] show ?thesis by simp
  qed
qed

lemma merge_remote_item_settled:
  "settled D (map_of m (item_id r)) r \<Longrightarrow> fst (merge_remote_item D r (m, h)) = m"
  by (auto simp: settled_def merge_remote_item_def map_get_def Let_def split: option.splits)

lemma fold_remote_settled:
  "\<forall>r \<in> set rs. settled D (map_of m (item_id r)) r \<Longrightarrow>
     fst (fold (merge_remote_item D) rs (m, h)) = m"
proof (induction rs arbitrary: h)
  case Nil
  then show ?case by simp
next
  case (Cons r rs)
  from Cons.prems have "fst (merge_remote_item D r (m, h)) = m"
    by (simp add: merge_remote_item_settled)
  then obtain h' where "merge_remote_item D r (m, h) = (m, h')"
    by (cases "merge_remote_item D r (m, h)") simp
  with Cons show ?case by simp
qed

lemma mergeArrays_idempotent:
  "local (mergeArrays D (local (mergeArrays D A B)) B) = local (mergeArrays D A B)"
proof -
  define m where "m = fst (fold (merge_remote_item D) B (seed_local A, False))"
  have k: "keyed m" unfolding m_def by (rule keyed_merged)
  have loc: "local (mergeArrays D A B) = map_values m"
    by (simp add: mergeArrays_def Let_def m_def)
  have "\<forall>r \<in> set B. settled D (map_of m (item_id r)) r"
    unfolding m_def fold_remote_lookup by (simp add: settled_after)
  then have "fst (fold (merge_remote_item D) B (m, False)) = m"
    by (rule fold_remote_settled)
  then have "local (mergeArrays D (map_values m) B) = map_values m"
    by (simp add: mergeArrays_def Let_def seed_of_keyed [OF k])
  then show ?thesis by (simp add: loc)
qed

lemma map_add_twice: "(f ++ g) ++ g = f ++ g"
  by (simp add: fun_eq_iff map_add_def split: option.splits)

text \<open>
  Claim C2. For two snapshots of matching shape (two arrays of records, two objects with
  an \<open>items\<close> array, or two objects compared by their \<open>updatedAt\<close>), merging the
  result of a merge with the same remote snapshot again gives the same merged snapshot.
\<close>

theorem mergeData_idempotent:
  assumes "matching_shape a b"
  shows "local (mergeData D (local (mergeData D (Some a) (Some b) ls)) (Some b) ls')
           = local (mergeData D (Some a) (Some b) ls)"
proof (cases a)
  case (Records xs)
  with assms obtain ys where b: "b = Records ys" by (cases b) auto
  show ?thesis
    by (simp add: Records b mergeData_def Let_def mergeArrays_idempotent)
next
  case (Document u its f)
  with assms obtain u' its' f' where b: "b = Document u' its' f'" by (cases b) auto
  show ?thesis
  proof (cases its)
    case None
    with assms Document b have n: "its' = None" by (cases its') auto
    show ?thesis
      by (simp add: Document b None n mergeData_def Let_def js_gt_irrefl)
  next
    case (Some xs)
    with assms Document b obtain ys where s: "its' = Some ys" by (cases its') auto
    show ?thesis
      by (simp add: Document b Some s mergeData_def Let_def spread_items_def
            mergeArrays_idempotent map_add_twice split: option.splits)
  qed
qed

theorem mergeData_idempotent_witness:
  "matching_shape (Records [idea_local]) (Records [idea_remote, idea_new]) \<and>
   local (mergeData sample_dates (Some (Records [idea_local])) (Some (Records [idea_remote, idea_new])) None)
     = Some (Records [idea_local, idea_new]) \<and>
   local (mergeData sample_dates (Some (Records [idea_local, idea_new])) (Some (Records [idea_remote, idea_new])) None)
     = Some (Records [idea_local, idea_new])"
proof -
  have m: "matching_shape (Records [idea_local]) (Records [idea_remote, idea_new])" by simp
  have first: "local (mergeData sample_dates (Some (Records [idea_local])) (Some (Records [idea_remote, idea_new])) None)
     = Some (Records [idea_local, idea_new])"
    by (simp add: mergeData_def mergeArrays_def seed_local_def merge_remote_item_def map_get_def
          map_values_def local_only_item_def idea_local_def idea_remote_def idea_new_def
          sample_dates_def getTime_def js_gt_def)
  from mergeData_idempotent [OF m, of sample_dates None None] first
  show ?thesis by simp
qed

section \<open>Properties of the OAuth handler\<close>

text \<open>
  Claim C5. For every provider name: with no stored record \<open>getToken\<close> returns null.
  With a stored record it returns null whenever the clock is within five minutes of the
  stored expiry (less than 300000 ms remain, or the expiry has passed); the record is
  then deleted when it has no refresh token and left as it is when it has one. Otherwise
  it returns the stored access token and changes nothing.
\<close>

theorem getToken_expiry_buffer:
  "(tokens st provider = None \<longrightarrow> getToken provider now st = (None, st)) \<and>
   (\<forall>r. tokens st provider = Some r \<longrightarrow>
      (within_expiry_buffer now r \<longrightarrow>
         getToken provider now st =
           (None, if truthy (refreshToken r) then st
                  else st\<lparr> tokens := (tokens st)(provider := None) \<rparr>)) \<and>
      (\<not> within_expiry_buffer now r \<longrightarrow>
         getToken provider now st = (Some (accessToken r), st)))"
  by (auto simp: getToken_def within_expiry_buffer_def)

theorem getToken_expiry_buffer_witness:
  "getToken ''google'' 800000 (sample_tokens None) =
     (None, (sample_tokens None)\<lparr> tokens := (tokens (sample_tokens None))(''google'' := None) \<rparr>) \<and>
   getToken ''google'' 800000 (sample_tokens (Some ''r'')) = (None, sample_tokens (Some ''r'')) \<and>
   getToken ''google'' 700000 (sample_tokens None) = (Some ''tok'', sample_tokens None) \<and>
   getToken ''dropbox'' 700000 (sample_tokens None) = (None, sample_tokens None)"
proof -
  note a = getToken_expiry_buffer [of "sample_tokens None" "''google''" 800000]
  note b = getToken_expiry_buffer [of "sample_tokens (Some ''r'')" "''google''" 800000]
  note c = getToken_expiry_buffer [of "sample_tokens None" "''google''" 700000]
  note d = getToken_expiry_buffer [of "sample_tokens None" "''dropbox''" 700000]
  from a have "getToken ''google'' 800000 (sample_tokens None) =
     (None, (sample_tokens None)\<lparr> tokens := (tokens (sample_tokens None))(''google'' := None) \<rparr>)"
    by (simp add: sample_tokens_def within_expiry_buffer_def truthy_def)
  moreover from b have "getToken ''google'' 800000 (sample_tokens (Some ''r'')) = (None, sample_tokens (Some ''r''))"
    by (simp add: sample_tokens_def within_expiry_buffer_def truthy_def)
  moreover from c have "getToken ''google'' 700000 (sample_tokens None) = (Some ''tok'', sample_tokens None)"
    by (simp add: sample_tokens_def within_expiry_buffer_def truthy_def)
  moreover from d have "getToken ''dropbox'' 700000 (sample_tokens None) = (None, sample_tokens None)"
    by (simp add: sample_tokens_def)
  ultimately show ?thesis by blast
qed

lemma getOAuthState_cases:
  "getOAuthState provider now st =
     (case oauth_sessions st provider of
        None \<Rightarrow> (None, st)
      | Some s \<Rightarrow>
          if now - timestamp s > 600000
          then (None, st\<lparr> oauth_sessions := (oauth_sessions st)(provider := None) \<rparr>)
          else (Some s, st))"
  by (simp add: getOAuthState_def split: option.splits)

lemma handleCallback_unconfigured:
  "OAUTH_CONFIG provider = None \<Longrightarrow>
     handleCallback endpoint now now_saved provider clientId redirectUri clientSecret b
       = (Inl (Error (''Unknown provider: '' @ provider)), b)"
  by (simp add: handleCallback_def)

lemma callback_refused_unconfigured:
  "OAUTH_CONFIG provider = None \<Longrightarrow>
     callback_refused endpoint now provider clientId redirectUri clientSecret b"
  by (simp add: callback_refused_def token_exchange_def yields_token_def split: option.splits)

lemma handleCallback_fails_iff:
  "(\<exists>e. fst (handleCallback endpoint now now_saved provider clientId redirectUri clientSecret b) = Inl e)
     \<longleftrightarrow> callback_refused endpoint now provider clientId redirectUri clientSecret b"
proof (cases "OAUTH_CONFIG provider")
  case None
  then show ?thesis
    by (simp add: handleCallback_unconfigured callback_refused_unconfigured)
next
  case (Some config)
  then show ?thesis
    by (auto simp: handleCallback_def callback_refused_def token_exchange_def yields_token_def
          Let_def getOAuthState_cases
          split: option.splits exchange.splits json_body.splits if_splits)
qed

lemma handleCallback_accepted:
  assumes "\<not> callback_refused endpoint now provider clientId redirectUri clientSecret b"
  shows "\<exists>saved token.
           fst (getOAuthState provider now (localStorage b)) = Some saved \<and>
           Some (state saved) = q_state (search b) \<and>
           token_exchange endpoint provider clientId redirectUri clientSecret
              (template (q_code (search b))) saved = Some (Success (Body token)) \<and>
           fst (handleCallback endpoint now now_saved provider clientId redirectUri clientSecret b) = Inr True \<and>
           tokens (localStorage (snd (handleCallback endpoint now now_saved provider clientId
               redirectUri clientSecret b))) provider = Some (token_record_of token now_saved) \<and>
           oauth_sessions (localStorage (snd (handleCallback endpoint now now_saved provider clientId
               redirectUri clientSecret b))) provider = None"
proof (cases "OAUTH_CONFIG provider")
  case None
  with assms show ?thesis by (simp add: callback_refused_unconfigured)
next
  case (Some config)
  with assms show ?thesis
    by (auto simp: handleCallback_def callback_refused_def token_exchange_def yields_token_def
          Let_def getOAuthState_cases saveToken_def token_record_of_def
          split: option.splits exchange.splits json_body.splits if_splits)
qed

lemma handleCallback_invalid_state:
  assumes "OAUTH_CONFIG provider \<noteq> None"
    and "\<not> truthy (q_error (search b))" and "truthy (q_code (search b))" and "truthy (q_state (search b))"
    and "oauth_sessions (localStorage b) provider = Some s"
    and "now - timestamp s > 10 * 60 * 1000 \<or> Some (state s) \<noteq> q_state (search b)"
  shows "fst (handleCallback endpoint now now_saved provider clientId redirectUri clientSecret b)
           = Inl (Error ''Invalid state parameter'') \<and>
         (now - timestamp s > 10 * 60 * 1000 \<longrightarrow>
            oauth_sessions (localStorage (snd (handleCallback endpoint now now_saved provider clientId
               redirectUri clientSecret b))) provider = None)"
  using assms by (auto simp: handleCallback_def Let_def getOAuthState_cases)

text \<open>
  Claim C4, amended. \<open>handleCallback\<close> fails exactly when the callback is refused: the
  query carries an \<open>error\<close> parameter, or \<open>code\<close> or \<open>state\<close> is missing, or no saved
  session exists for the provider (a session older than ten minutes is discarded), or the
  saved \<open>state\<close> differs from the callback's, or the token exchange yields no token: the
  request is rejected, the response is not ok, the body of an ok response is \<open>null\<close> or
  not JSON, or no request is made because the provider does not pass the guard on
  \<open>OAUTH_CONFIG\<close> (the handler then throws \<open>Unknown provider\<close> first and leaves the page as
  it is). When the callback is not refused, the saved state matches, the exchange has
  yielded a token, the token record is stored for the provider, the saved session is
  removed and the result is \<open>true\<close>. For a provider that passes the guard, a saved session
  that is too old or carries another state fails with \<open>Invalid state parameter\<close>, and the
  session that is too old is removed from the storage.
\<close>

theorem handleCallback_outcome:
  "((\<exists>e. fst (handleCallback endpoint now now_saved provider clientId redirectUri clientSecret b) = Inl e)
      \<longleftrightarrow> callback_refused endpoint now provider clientId redirectUri clientSecret b) \<and>
   (OAUTH_CONFIG provider = None \<longrightarrow>
      handleCallback endpoint now now_saved provider clientId redirectUri clientSecret b
        = (Inl (Error (''Unknown provider: '' @ provider)), b)) \<and>
   (\<not> callback_refused endpoint now provider clientId redirectUri clientSecret b \<longrightarrow>
      (\<exists>saved token.
         fst (getOAuthState provider now (localStorage b)) = Some saved \<and>
         Some (state saved) = q_state (search b) \<and>
         token_exchange endpoint provider clientId redirectUri clientSecret
            (template (q_code (search b))) saved = Some (Success (Body token)) \<and>
         fst (handleCallback endpoint now now_saved provider clientId redirectUri clientSecret b) = Inr True \<and>
         tokens (localStorage (snd (handleCallback endpoint now now_saved provider clientId
             redirectUri clientSecret b))) provider = Some (token_record_of token now_saved) \<and>
         oauth_sessions (localStorage (snd (handleCallback endpoint now now_saved provider clientId
             redirectUri clientSecret b))) provider = None)) \<and>
   (\<forall>s. OAUTH_CONFIG provider \<noteq> None \<and>
        \<not> truthy (q_error (search b)) \<and> truthy (q_code (search b)) \<and> truthy (q_state (search b)) \<and>
        oauth_sessions (localStorage b) provider = Some s \<and>
        (now - timestamp s > 10 * 60 * 1000 \<or> Some (state s) \<noteq> q_state (search b)) \<longrightarrow>
        fst (handleCallback endpoint now now_saved provider clientId redirectUri clientSecret b)
          = Inl (Error ''Invalid state parameter'') \<and>
        (now - timestamp s > 10 * 60 * 1000 \<longrightarrow>
           oauth_sessions (localStorage (snd (handleCallback endpoint now now_saved provider clientId
              redirectUri clientSecret b))) provider = None))"
  using handleCallback_fails_iff [of endpoint now now_saved provider clientId redirectUri clientSecret b]
    handleCallback_unconfigured [of provider endpoint now now_saved clientId redirectUri clientSecret b]
    handleCallback_accepted [of endpoint now provider clientId redirectUri clientSecret b now_saved]
    handleCallback_invalid_state [of provider b _ now endpoint now_saved clientId redirectUri clientSecret]
  by blast

theorem handleCallback_outcome_witness:
  "fst (handleCallback granting_endpoint 2000 3000 ''google'' ''client'' ''https://app.example/'' None
          (callback_page ''google'')) = Inr True \<and>
   tokens (localStorage (snd (handleCallback granting_endpoint 2000 3000 ''google'' ''client''
          ''https://app.example/'' None (callback_page ''google'')))) ''google''
     = Some \<lparr> accessToken = ''tok'', refreshToken = None, expiry = 3603000 \<rparr> \<and>
   fst (handleCallback granting_endpoint 700000 700001 ''google'' ''client'' ''https://app.example/'' None
          (callback_page ''google'')) = Inl (Error ''Invalid state parameter'') \<and>
   handleCallback granting_endpoint 2000 3000 ''github'' ''client'' ''https://app.example/'' None
          (callback_page ''google'')
     = (Inl (Error ''Unknown provider: github''), callback_page ''google'') \<and>
   fst (handleCallback granting_endpoint 2000 3000 ''constructor'' ''client'' ''https://app.example/'' None
          (callback_page ''constructor'')) = Inr True"
proof -
  have c: "OAUTH_CONFIG ''google'' \<noteq> None" and c': "OAUTH_CONFIG ''github'' = None"
    and c'': "OAUTH_CONFIG ''constructor'' \<noteq> None"
    by (simp_all add: OAUTH_CONFIG_def object_prototype_names_def)
  have ok: "\<not> callback_refused granting_endpoint 2000 ''google'' ''client'' ''https://app.example/'' None
               (callback_page ''google'')"
    using c
    by (auto simp: callback_refused_def callback_page_def truthy_def getOAuthState_def
          sample_session_def granting_endpoint_def token_exchange_def yields_token_def)
  have ok'': "\<not> callback_refused granting_endpoint 2000 ''constructor'' ''client'' ''https://app.example/'' None
               (callback_page ''constructor'')"
    using c''
    by (auto simp: callback_refused_def callback_page_def truthy_def getOAuthState_def
          sample_session_def granting_endpoint_def token_exchange_def yields_token_def)
  note t = handleCallback_outcome [of granting_endpoint 2000 3000 "''google''" "''client''"
      "''https://app.example/''" None "callback_page ''google''"]
  from t ok obtain saved token where
    "token_exchange granting_endpoint ''google'' ''client'' ''https://app.example/'' None
        (template (q_code (search (callback_page ''google'')))) saved = Some (Success (Body token))"
    and r: "fst (handleCallback granting_endpoint 2000 3000 ''google'' ''client'' ''https://app.example/'' None
          (callback_page ''google'')) = Inr True"
    and tk: "tokens (localStorage (snd (handleCallback granting_endpoint 2000 3000 ''google'' ''client''
          ''https://app.example/'' None (callback_page ''google'')))) ''google''
        = Some (token_record_of token 3000)"
    by blast
  then have "token = sample_token"
    by (simp add: token_exchange_def granting_endpoint_def split: option.splits)
  with tk have tk': "tokens (localStorage (snd (handleCallback granting_endpoint 2000 3000 ''google'' ''client''
          ''https://app.example/'' None (callback_page ''google'')))) ''google''
     = Some \<lparr> accessToken = ''tok'', refreshToken = None, expiry = 3603000 \<rparr>"
    by (simp add: token_record_of_def sample_token_def)
  note t2 = handleCallback_outcome [of granting_endpoint 700000 700001 "''google''" "''client''"
      "''https://app.example/''" None "callback_page ''google''"]
  have old: "OAUTH_CONFIG ''google'' \<noteq> None \<and>
      \<not> truthy (q_error (search (callback_page ''google''))) \<and>
      truthy (q_code (search (callback_page ''google''))) \<and>
      truthy (q_state (search (callback_page ''google''))) \<and>
      oauth_sessions (localStorage (callback_page ''google'')) ''google'' = Some sample_session \<and>
      (700000 - timestamp sample_session > 10 * 60 * 1000 \<or>
         Some (state sample_session) \<noteq> q_state (search (callback_page ''google'')))"
    using c by (simp add: callback_page_def truthy_def sample_session_def)
  from t2 old have inv: "fst (handleCallback granting_endpoint 700000 700001 ''google'' ''client''
        ''https://app.example/'' None (callback_page ''google'')) = Inl (Error ''Invalid state parameter'')"
    by blast
  note t3 = handleCallback_outcome [of granting_endpoint 2000 3000 "''github''" "''client''"
      "''https://app.example/''" None "callback_page ''google''"]
  from t3 c' have unk: "handleCallback granting_endpoint 2000 3000 ''github'' ''client'' ''https://app.example/'' None
          (callback_page ''google'')
     = (Inl (Error ''Unknown provider: github''), callback_page ''google'')"
    by simp
  note t4 = handleCallback_outcome [of granting_endpoint 2000 3000 "''constructor''" "''client''"
      "''https://app.example/''" None "callback_page ''constructor''"]
  from t4 ok'' have inh: "fst (handleCallback granting_endpoint 2000 3000 ''constructor'' ''client''
      ''https://app.example/'' None (callback_page ''constructor'')) = Inr True"
    by blast
  from r tk' inv unk inh show ?thesis by simp
qed

text \<open>
  The claim as stated fails for google with a callback that carries a code, the state of
  a saved and recent session and no error, when the token endpoint answers with status ok
  and a body that is \<open>null\<close> or is not JSON: the response is a success status, yet the
  handler throws and stores no token.
\<close>

theorem handleCallback_success_status_counterexample:
  "\<not> truthy (q_error (search (callback_page ''google''))) \<and>
   truthy (q_code (search (callback_page ''google''))) \<and>
   truthy (q_state (search (callback_page ''google''))) \<and>
   fst (getOAuthState ''google'' 2000 (localStorage (callback_page ''google''))) = Some sample_session \<and>
   Some (state sample_session) = q_state (search (callback_page ''google'')) \<and>
   token_exchange null_body_endpoint ''google'' ''client'' ''https://app.example/'' None ''c1'' sample_session
     = Some (Success NullBody) \<and>
   fst (handleCallback null_body_endpoint 2000 3000 ''google'' ''client'' ''https://app.example/'' None
          (callback_page ''google'')) = Inl (TypeError ''Cannot read properties of null'') \<and>
   tokens (localStorage (snd (handleCallback null_body_endpoint 2000 3000 ''google'' ''client''
          ''https://app.example/'' None (callback_page ''google'')))) ''google'' = None \<and>
   fst (handleCallback garbled_body_endpoint 2000 3000 ''google'' ''client'' ''https://app.example/'' None
          (callback_page ''google'')) = Inl (SyntaxError ''Unexpected token'') \<and>
   tokens (localStorage (snd (handleCallback garbled_body_endpoint 2000 3000 ''google'' ''client''
          ''https://app.example/'' None (callback_page ''google'')))) ''google'' = None"
  by (simp add: handleCallback_def OAUTH_CONFIG_def callback_page_def truthy_def getOAuthState_def
        sample_session_def token_exchange_def null_body_endpoint_def garbled_body_endpoint_def
        template_def Let_def)

text \<open>
  The storage holds a session only for providers that pass the guard: this holds of a
  storage without sessions and is kept by every function of the module. In such a storage
  a provider that does not pass the guard has no saved session.
\<close>

lemma sessions_pass_guard_empty: "oauth_sessions st = Map.empty \<Longrightarrow> sessions_pass_guard st"
  by (simp add: sessions_pass_guard_def)

lemma sessions_pass_guard_startAuth:
  "sessions_pass_guard st \<Longrightarrow>
     startAuth serialize vrf challenge nonce now provider clientId scps redirectUri st = Inr (href, st')
     \<Longrightarrow> sessions_pass_guard st'"
proof -
  assume inv: "sessions_pass_guard st"
    and run: "startAuth serialize vrf challenge nonce now provider clientId scps redirectUri st = Inr (href, st')"
  from run obtain config where c: "OAUTH_CONFIG provider = Some config"
    by (cases "OAUTH_CONFIG provider") (simp_all add: startAuth_def)
  with run have st': "st' = saveOAuthState provider nonce vrf now st"
    by (simp add: startAuth_def Let_def)
  show ?thesis
    unfolding sessions_pass_guard_def
  proof (intro allI impI)
    fix p assume s: "oauth_sessions st' p \<noteq> None"
    show "OAUTH_CONFIG p \<noteq> None"
    proof (cases "p = provider")
      case True
      with c show ?thesis by simp
    next
      case False
      with s st' have "oauth_sessions st p \<noteq> None" by (simp add: saveOAuthState_def)
      with inv show ?thesis by (simp add: sessions_pass_guard_def)
    qed
  qed
qed

lemma sessions_pass_guard_handleCallback:
  "sessions_pass_guard (localStorage b) \<Longrightarrow>
     sessions_pass_guard (localStorage (snd (handleCallback endpoint now now_saved provider clientId
        redirectUri clientSecret b)))"
  by (auto simp: handleCallback_def sessions_pass_guard_def saveToken_def Let_def
        getOAuthState_cases
        split: option.splits exchange.splits json_body.splits if_splits)

lemma sessions_pass_guard_getToken:
  "sessions_pass_guard st \<Longrightarrow> sessions_pass_guard (snd (getToken provider now st))"
  by (auto simp: getToken_def sessions_pass_guard_def split: option.splits)

lemma sessions_pass_guard_logout:
  "sessions_pass_guard st \<Longrightarrow> sessions_pass_guard (logout provider st)"
  by (auto simp: logout_def sessions_pass_guard_def)

lemma unconfigured_has_no_session:
  "sessions_pass_guard st \<Longrightarrow> OAUTH_CONFIG provider = None \<Longrightarrow>
     fst (getOAuthState provider now st) = None"
  by (auto simp: sessions_pass_guard_def getOAuthState_cases split: option.splits)

section \<open>Properties of the sync engine\<close>

text \<open>
  Claim C8. Called while the status is \<open>SYNCING\<close>, or while the provider answers that it
  is not connected, or that no folder is configured, \<open>sync\<close> resolves to
  \<open>{success: false}\<close> with its own message in each of the three cases. Nothing is
  thrown; status, \<open>lastError\<close> and the listeners are as before; and the world is the one
  left by the provider's own answers (\<open>w\<close>, \<open>w1\<close>, \<open>w2\<close>): no listener, accessor or
  mutator of the local data, \<open>fetch\<close> or \<open>push\<close> has run, so neither the local nor the
  remote data has changed.
\<close>

theorem sync_preconditions:
  "(status eng = SYNCING \<longrightarrow>
      sync cfg eng w = (Inr \<lparr> success = False, error = Some ''Sync already in progress'' \<rparr>, eng, w)) \<and>
   (\<forall>w1. status eng \<noteq> SYNCING \<and> provider_isConnected cfg w = (Inr False, w1) \<longrightarrow>
      sync cfg eng w = (Inr \<lparr> success = False, error = Some ''Not connected to sync provider'' \<rparr>, eng, w1)) \<and>
   (\<forall>w1 w2. status eng \<noteq> SYNCING \<and> provider_isConnected cfg w = (Inr True, w1) \<and>
        provider_isFolderConfigured cfg w1 = (Inr False, w2) \<longrightarrow>
      sync cfg eng w = (Inr \<lparr> success = False, error = Some ''No sync folder configured'' \<rparr>, eng, w2)) \<and>
   distinct [''Sync already in progress'', ''Not connected to sync provider'', ''No sync folder configured'']"
  by (simp add: sync_def)

theorem sync_preconditions_witness:
  "sync device_config (sample_engine SYNCING [recording_listener]) (sample_device True True)
     = (Inr \<lparr> success = False, error = Some ''Sync already in progress'' \<rparr>,
        sample_engine SYNCING [recording_listener], sample_device True True) \<and>
   sync device_config (sample_engine IDLE [recording_listener]) (sample_device False True)
     = (Inr \<lparr> success = False, error = Some ''Not connected to sync provider'' \<rparr>,
        sample_engine IDLE [recording_listener], sample_device False True) \<and>
   sync device_config (sample_engine ERROR [recording_listener]) (sample_device True False)
     = (Inr \<lparr> success = False, error = Some ''No sync folder configured'' \<rparr>,
        sample_engine ERROR [recording_listener], sample_device True False)"
proof -
  note a = sync_preconditions [of "sample_engine SYNCING [recording_listener]" device_config
      "sample_device True True"]
  note b = sync_preconditions [of "sample_engine IDLE [recording_listener]" device_config
      "sample_device False True"]
  note c = sync_preconditions [of "sample_engine ERROR [recording_listener]" device_config
      "sample_device True False"]
  have s: "status (sample_engine SYNCING [recording_listener]) = SYNCING"
    by (simp add: sample_engine_def)
  have nb: "status (sample_engine IDLE [recording_listener]) \<noteq> SYNCING \<and>
      provider_isConnected device_config (sample_device False True) = (Inr False, sample_device False True)"
    by (simp add: sample_engine_def device_config_def sample_device_def)
  have nc: "status (sample_engine ERROR [recording_listener]) \<noteq> SYNCING \<and>
      provider_isConnected device_config (sample_device True False) = (Inr True, sample_device True False) \<and>
      provider_isFolderConfigured device_config (sample_device True False) = (Inr False, sample_device True False)"
    by (simp add: sample_engine_def device_config_def sample_device_def)
  from a s have "sync device_config (sample_engine SYNCING [recording_listener]) (sample_device True True)
     = (Inr \<lparr> success = False, error = Some ''Sync already in progress'' \<rparr>,
        sample_engine SYNCING [recording_listener], sample_device True True)"
    by blast
  moreover from b nb have "sync device_config (sample_engine IDLE [recording_listener]) (sample_device False True)
     = (Inr \<lparr> success = False, error = Some ''Not connected to sync provider'' \<rparr>,
        sample_engine IDLE [recording_listener], sample_device False True)"
    by blast
  moreover from c nc have "sync device_config (sample_engine ERROR [recording_listener]) (sample_device True False)
     = (Inr \<lparr> success = False, error = Some ''No sync folder configured'' \<rparr>,
        sample_engine ERROR [recording_listener], sample_device True False)"
    by blast
  ultimately show ?thesis by blast
qed

text \<open>
  Claim C3 fails on the code. The first \<open>notifyStatusChange()\<close> of \<open>sync\<close> stands before
  the \<open>try\<close> block: with a listener that throws, a connected provider and a configured
  folder, the exception leaves \<open>sync\<close>, the status stays \<open>SYNCING\<close>, and the next call
  answers that a sync is already in progress.
\<close>

theorem sync_throwing_listener_stuck:
  "fst (sync device_config (sample_engine IDLE [throwing_listener]) (sample_device True True))
     = Inl (Error ''listener failed'') \<and>
   status (fst (snd (sync device_config (sample_engine IDLE [throwing_listener]) (sample_device True True))))
     = SYNCING \<and>
   local_store (snd (snd (sync device_config (sample_engine IDLE [throwing_listener]) (sample_device True True))))
     = Some (Records [idea_local]) \<and>
   fst (sync device_config
          (fst (snd (sync device_config (sample_engine IDLE [throwing_listener]) (sample_device True True))))
          (snd (snd (sync device_config (sample_engine IDLE [throwing_listener]) (sample_device True True)))))
     = Inr \<lparr> success = False, error = Some ''Sync already in progress'' \<rparr>"
  by (simp add: sync_def sample_engine_def device_config_def sample_device_def
        notifyStatusChange_def throwing_listener_def)

text \<open>The same device with a listener that returns: the sync completes and pushes.\<close>

lemma sync_quiet_listeners_run:
  "sync device_config (sample_engine IDLE [recording_listener]) (sample_device True True)
     = (Inr \<lparr> success = True, error = None \<rparr>,
        sample_engine IDLE [recording_listener],
        (sample_device True True)\<lparr> remote_store := Some (Records [idea_local]),
           last_sync := Some ''2025-01-01T00:00:10Z'',
           notified := [(SYNCING, None), (IDLE, None)] \<rparr>)"
  by (simp add: sync_def sync_try_def sample_engine_def device_config_def sample_device_def
        notifyStatusChange_def recording_listener_def mergeData_def)

lemma notify_each_quiet: "quiet ls \<Longrightarrow> fst (notify_each ls s e w) = Inr ()"
proof (induction ls arbitrary: w)
  case Nil
  then show ?case by simp
next
  case (Cons l ls)
  from Cons.prems have h: "fst (l s e w) = Inr ()" and q: "quiet ls"
    by (simp_all add: quiet_def)
  obtain w' where "l s e w = (Inr (), w')" using h by (cases "l s e w") auto
  with Cons.IH [OF q] show ?case by simp
qed

lemma notifyStatusChange_quiet:
  "quiet (listeners eng) \<Longrightarrow> \<exists>w'. notifyStatusChange eng w = (Inr (), w')"
  using notify_each_quiet [of "listeners eng" "status eng" "lastError eng" w]
  by (cases "notify_each (listeners eng) (status eng) (lastError eng) w")
     (simp add: notifyStatusChange_def)

lemma sync_try_quiet:
  assumes "quiet (listeners eng)"
  shows "(\<exists>w'. sync_try cfg eng w = (Inr (), eng\<lparr> status := IDLE \<rparr>, w')) \<or>
         (\<exists>x w'. sync_try cfg eng w = (Inl x, eng, w'))"
proof -
  have q: "quiet (listeners (eng\<lparr> status := IDLE \<rparr>))" using assms by simp
  obtain r1 w1 where s1: "getLocalData cfg w = (r1, w1)" by (cases "getLocalData cfg w")
  show ?thesis
  proof (cases r1)
    case (Inl x)
    with s1 show ?thesis by (simp add: sync_try_def)
  next
    case r1: (Inr localData)
    obtain r2 w2 where s2: "getLastSync cfg w1 = (r2, w2)" by (cases "getLastSync cfg w1")
    show ?thesis
    proof (cases r2)
      case (Inl x)
      with s1 r1 s2 show ?thesis by (simp add: sync_try_def)
    next
      case r2: (Inr lastSync)
      obtain r3 w3 where s3: "provider_fetch cfg w2 = (r3, w3)" by (cases "provider_fetch cfg w2")
      show ?thesis
      proof (cases r3)
        case (Inl x)
        with s1 r1 s2 r2 s3 show ?thesis by (simp add: sync_try_def)
      next
        case r3: (Inr remoteResult)
        let ?merged = "mergeData (parseDate cfg) localData (data remoteResult) lastSync"
        obtain r4 w4 where s4: "setLocalData cfg (local ?merged) w3 = (r4, w4)"
          by (cases "setLocalData cfg (local ?merged) w3")
        show ?thesis
        proof (cases r4)
          case (Inl x)
          with s1 r1 s2 r2 s3 r3 s4 show ?thesis by (simp add: sync_try_def Let_def)
        next
          case r4: (Inr u4)
          obtain r5 w5 where s5:
            "(if hasLocalChanges ?merged
              then provider_push cfg \<lparr> data = local ?merged, lastModified = Some (toISOString cfg w4) \<rparr> w4
              else (Inr (), w4)) = (r5, w5)"
            by (cases "if hasLocalChanges ?merged
              then provider_push cfg \<lparr> data = local ?merged, lastModified = Some (toISOString cfg w4) \<rparr> w4
              else (Inr (), w4)")
          show ?thesis
          proof (cases r5)
            case (Inl x)
            with s1 r1 s2 r2 s3 r3 s4 r4 s5 show ?thesis
              by (simp add: sync_try_def Let_def split del: if_split)
          next
            case r5: (Inr u5)
            obtain r6 w6 where s6: "setLastSync cfg (toISOString cfg w5) w5 = (r6, w6)"
              by (cases "setLastSync cfg (toISOString cfg w5) w5")
            show ?thesis
            proof (cases r6)
              case (Inl x)
              with s1 r1 s2 r2 s3 r3 s4 r4 s5 r5 s6 show ?thesis
                by (simp add: sync_try_def Let_def split del: if_split)
            next
              case r6: (Inr u6)
              from notifyStatusChange_quiet [OF q] obtain w7
                where n: "notifyStatusChange (eng\<lparr> status := IDLE \<rparr>) w6 = (Inr (), w7)" by blast
              with s1 r1 s2 r2 s3 r3 s4 r4 s5 r5 s6 r6 show ?thesis
                by (simp add: sync_try_def Let_def split del: if_split)
            qed
          qed
        qed
      qed
    qed
  qed
qed

text \<open>
  What the \<open>try\<close> block does guarantee: when the two answers of the provider come back
  and no listener throws, \<open>sync\<close> resolves with a result object and ends in \<open>IDLE\<close> or
  \<open>ERROR\<close>, whatever the accessor, the mutator, the getter, the setter, \<open>fetch\<close> and
  \<open>push\<close> do.
\<close>

lemma sync_resolves_with_quiet_listeners:
  assumes "status eng \<noteq> SYNCING" and "quiet (listeners eng)"
    and "answers (provider_isConnected cfg)" and "answers (provider_isFolderConfigured cfg)"
  shows "\<exists>res eng' w'. sync cfg eng w = (Inr res, eng', w') \<and>
           (status eng' = IDLE \<or> status eng' = ERROR)"
proof -
  obtain c w1 where c: "provider_isConnected cfg w = (Inr c, w1)"
    using assms(3) unfolding answers_def by (metis prod.collapse)
  obtain f w2 where f: "provider_isFolderConfigured cfg w1 = (Inr f, w2)"
    using assms(4) unfolding answers_def by (metis prod.collapse)
  from assms(1) have st: "status eng = IDLE \<or> status eng = ERROR" by (cases "status eng") auto
  let ?e1 = "eng\<lparr> status := SYNCING, lastError := None \<rparr>"
  have q1: "quiet (listeners ?e1)" using assms(2) by simp
  obtain w3 where n1: "notifyStatusChange ?e1 w2 = (Inr (), w3)"
    using notifyStatusChange_quiet [OF q1] by blast
  show ?thesis
  proof (cases "c \<and> f")
    case False
    with assms(1) c f st show ?thesis by (auto simp: sync_def)
  next
    case True
    from sync_try_quiet [OF q1, of cfg w3] show ?thesis
    proof (elim disjE exE)
      fix w4 assume t: "sync_try cfg ?e1 w3 = (Inr (), ?e1\<lparr> status := IDLE \<rparr>, w4)"
      with assms(1) c f True n1 show ?thesis by (simp add: sync_def)
    next
      fix x w4 assume t: "sync_try cfg ?e1 w3 = (Inl x, ?e1, w4)"
      let ?e3 = "?e1\<lparr> status := ERROR, lastError := Some (message x) \<rparr>"
      have "quiet (listeners ?e3)" using assms(2) by simp
      from notifyStatusChange_quiet [OF this] obtain w5
        where "notifyStatusChange ?e3 w4 = (Inr (), w5)" by blast
      with assms(1) c f True n1 t show ?thesis by (simp add: sync_def Let_def)
    qed
  qed
qed

section \<open>Properties of the provider\<close>

subsection \<open>Attachment names\<close>

lemma indexOf_absent: "c \<notin> set s \<Longrightarrow> indexOf s c = - 1"
  by (induction s) auto

lemma indexOf_first: "c \<notin> set a \<Longrightarrow> indexOf (a @ c # f) c = int (length a)"
  by (induction a) (auto simp: Let_def)

lemma substring_prefix: "substring (a @ r) 0 (int (length a)) = a"
proof -
  have "max 0 (min (int (length (a @ r))) 0) = (0::int)" by simp
  moreover have "max 0 (min (int (length (a @ r))) (int (length a))) = int (length a)" by simp
  ultimately show ?thesis
    unfolding substring_def Let_def by simp
qed

lemma substring_from_suffix: "substring_from (a @ c # f) (int (length a) + 1) = f"
proof -
  let ?n = "int (length (a @ c # f))"
  have lo: "max 0 (min ?n (int (length a) + 1)) = int (length a) + 1" by simp
  have hi: "max 0 (min ?n ?n) = ?n" by simp
  have d: "nat (int (length a) + 1) = Suc (length a)" by simp
  have "substring_from (a @ c # f) (int (length a) + 1)
          = take (nat (?n - (int (length a) + 1))) (drop (nat (int (length a) + 1)) (a @ c # f))"
    unfolding substring_from_def substring_def Let_def lo hi by simp
  also have "\<dots> = f" unfolding d by simp
  finally show ?thesis .
qed

text \<open>
  Claim C9. For a non-empty attachment id without \<open>-\<close> and any filename, the name
  \<open>{attachmentId}-{filename}\<close> under which \<open>uploadAttachment\<close> stores the file is split
  by \<open>listAttachments\<close> at its first \<open>-\<close> into exactly that id and that filename; a
  stored name without \<open>-\<close> comes back unchanged as the filename.
\<close>

theorem attachment_name_round_trip:
  "(attachmentId \<noteq> [] \<and> CHR ''-'' \<notin> set attachmentId \<longrightarrow>
      name_id (attachment_name attachmentId fname) = attachmentId \<and>
      name_filename (attachment_name attachmentId fname) = fname \<and>
      (\<forall>file. js_prop file ''name'' = Some (JStr (attachment_name attachmentId fname)) \<longrightarrow>
         (\<exists>att. attachment_of pf file = Inr att \<and> att_id att = attachmentId \<and>
                filename att = fname))) \<and>
   (CHR ''-'' \<notin> set name \<longrightarrow>
      name_filename name = name \<and>
      (\<forall>file. js_prop file ''name'' = Some (JStr name) \<longrightarrow>
         (\<exists>att. attachment_of pf file = Inr att \<and> filename att = name)))"
proof (intro conjI impI)
  assume a: "attachmentId \<noteq> [] \<and> CHR ''-'' \<notin> set attachmentId"
  then have i: "indexOf (attachment_name attachmentId fname) CHR ''-'' = int (length attachmentId)"
    by (simp add: attachment_name_def indexOf_first)
  from a have pos: "0 < int (length attachmentId)" by simp
  show n1: "name_id (attachment_name attachmentId fname) = attachmentId"
    using pos by (simp add: name_id_def i Let_def) (simp add: attachment_name_def substring_prefix)
  show n2: "name_filename (attachment_name attachmentId fname) = fname"
    using pos by (simp add: name_filename_def i Let_def) (simp add: attachment_name_def substring_from_suffix)
  show "\<forall>file. js_prop file ''name'' = Some (JStr (attachment_name attachmentId fname)) \<longrightarrow>
         (\<exists>att. attachment_of pf file = Inr att \<and> att_id att = attachmentId \<and> filename att = fname)"
  proof (intro allI impI)
    fix fl assume f: "js_prop fl ''name'' = Some (JStr (attachment_name attachmentId fname))"
    then obtain ps where "fl = JObj ps" by (cases fl) auto
    with f have "file_name fl = Inr (attachment_name attachmentId fname)"
      by (simp add: file_name_def get_prop_def)
    then show "\<exists>att. attachment_of pf fl = Inr att \<and> att_id att = attachmentId \<and> filename att = fname"
      by (simp add: attachment_of_def n1 n2)
  qed
next
  assume n: "CHR ''-'' \<notin> set name"
  then show v: "name_filename name = name"
    by (simp add: name_filename_def indexOf_absent)
  show "\<forall>file. js_prop file ''name'' = Some (JStr name) \<longrightarrow>
         (\<exists>att. attachment_of pf file = Inr att \<and> filename att = name)"
  proof (intro allI impI)
    fix fl assume f: "js_prop fl ''name'' = Some (JStr name)"
    then obtain ps where "fl = JObj ps" by (cases fl) auto
    with f have "file_name fl = Inr name"
      by (simp add: file_name_def get_prop_def)
    then show "\<exists>att. attachment_of pf fl = Inr att \<and> filename att = name"
      by (simp add: attachment_of_def v)
  qed
qed

theorem attachment_name_round_trip_witness:
  "name_id (attachment_name ''a1'' ''my-photo.png'') = ''a1'' \<and>
   name_filename (attachment_name ''a1'' ''my-photo.png'') = ''my-photo.png'' \<and>
   name_filename ''notes.txt'' = ''notes.txt''"
proof -
  have "''a1'' \<noteq> [] \<and> CHR ''-'' \<notin> set ''a1''" by simp
  moreover have "CHR ''-'' \<notin> set ''notes.txt''" by simp
  moreover note attachment_name_round_trip [of "''a1''" "''my-photo.png''" "first_use_platform []" "''notes.txt''"]
  ultimately show ?thesis by blast
qed

subsection \<open>Requests without a token\<close>

lemma getToken_truthy_store:
  "truthy (fst (getToken p now st)) \<Longrightarrow> snd (getToken p now st) = st"
  by (auto simp: getToken_def truthy_def split: option.splits if_splits)

lemma after_getToken_fields:
  "requests (after_getToken d) = requests d"
  "clock (after_getToken d) = clock d"
  "fileId (after_getToken d) = fileId d"
  "attachmentsFolderId (after_getToken d) = attachmentsFolderId d"
  by (simp_all add: after_getToken_def)

lemma apiRequest_unauthenticated:
  "\<not> authenticated d \<Longrightarrow> apiRequest pf path options d = (Inl not_authenticated_error, after_getToken d)"
proof -
  assume u: "\<not> authenticated d"
  obtain token st where g: "getToken ''google'' (clock d) (store d) = (token, st)"
    by (cases "getToken ''google'' (clock d) (store d)")
  with u have "\<not> truthy token" by (simp add: authenticated_def)
  with g show ?thesis
    by (simp add: apiRequest_def after_getToken_def not_authenticated_error_def Let_def)
qed

lemma find_or_create_folder_unauthenticated:
  "\<not> authenticated d \<Longrightarrow>
     find_or_create_folder pf name parent d = (Inl not_authenticated_error, after_getToken d)"
  by (simp add: find_or_create_folder_def Let_def apiRequest_unauthenticated)

lemma getOrCreateDataFile_unauthenticated:
  "\<not> authenticated d \<Longrightarrow>
     getOrCreateDataFile pf domain d =
       (if js_truthy (fileId d) then (Inr (fileId d), d)
        else if getSavedFolder domain (store d) \<noteq> None then (Inl not_authenticated_error, after_getToken d)
        else (Inl no_folder_error, d))"
  by (auto simp: getOrCreateDataFile_def Let_def apiRequest_unauthenticated split: option.splits)

lemma getOrCreateAttachmentsFolder_unauthenticated:
  "\<not> authenticated d \<Longrightarrow>
     getOrCreateAttachmentsFolder pf domain d =
       (if js_truthy (attachmentsFolderId d) then (Inr (attachmentsFolderId d), d)
        else if getSavedFolder domain (store d) \<noteq> None then (Inl not_authenticated_error, after_getToken d)
        else (Inl no_folder_error, d))"
  by (auto simp: getOrCreateAttachmentsFolder_def find_or_create_folder_unauthenticated
        split: option.splits)

text \<open>
  Claim C6, amended. When \<open>getToken\<close> gives no token, every request that goes through
  \<open>apiRequest\<close> fails with \<open>Not authenticated with Google\<close> and nothing is sent: the
  log of requests is unchanged. So \<open>deleteAttachment\<close> fails in this way; so do
  \<open>listAttachments\<close>, \<open>listAllDomainFiles\<close>, \<open>fetch\<close>, \<open>push\<close> and
  \<open>uploadAttachment\<close> whenever they first have to look an id up in a configured folder.
  Without a configured folder the lookups fail with the no-folder error and
  \<open>listAllDomainFiles\<close> returns the empty list. With a cached file id \<open>fetch\<close> returns
  \<open>{data: null, lastModified: null}\<close>, and \<open>fetchDomainData\<close> returns \<open>null\<close>. Nothing is
  said here about \<open>downloadAttachment\<close>, nor about \<open>push\<close> and \<open>uploadAttachment\<close> with
  a cached id.
\<close>

theorem unauthenticated_requests_fail_fast:
  assumes "\<not> authenticated d"
  shows "apiRequest pf path options d = (Inl not_authenticated_error, after_getToken d) \<and>
         deleteAttachment pf remote d = (Inl not_authenticated_error, after_getToken d) \<and>
         listAttachments pf domain d =
           (if js_truthy (attachmentsFolderId d) \<or> getSavedFolder domain (store d) \<noteq> None
            then (Inl not_authenticated_error, after_getToken d)
            else (Inl no_folder_error, d)) \<and>
         listAllDomainFiles pf domain d =
           (if getSavedFolder domain (store d) \<noteq> None
            then (Inl not_authenticated_error, after_getToken d)
            else (Inr [], d)) \<and>
         fetch pf domain d =
           (if js_truthy (fileId d) then (Inr no_data, after_getToken d)
            else if getSavedFolder domain (store d) \<noteq> None
            then (Inl not_authenticated_error, after_getToken d)
            else (Inl no_folder_error, d)) \<and>
         fetchDomainData pf domainFileId d = (JNull, after_getToken d) \<and>
         (\<not> js_truthy (fileId d) \<longrightarrow>
            push pf domain syncData d =
              (if getSavedFolder domain (store d) \<noteq> None
               then (Inl not_authenticated_error, after_getToken d)
               else (Inl no_folder_error, d))) \<and>
         (\<not> js_truthy (attachmentsFolderId d) \<longrightarrow>
            uploadAttachment pf domain attachmentId fname blob mime d =
              (if getSavedFolder domain (store d) \<noteq> None
               then (Inl not_authenticated_error, after_getToken d)
               else (Inl no_folder_error, d))) \<and>
         requests (after_getToken d) = requests d"
proof (intro conjI impI)
  show "apiRequest pf path options d = (Inl not_authenticated_error, after_getToken d)"
    using assms by (rule apiRequest_unauthenticated)
  show "deleteAttachment pf remote d = (Inl not_authenticated_error, after_getToken d)"
    by (simp add: deleteAttachment_def apiRequest_unauthenticated [OF assms])
  show "listAttachments pf domain d =
           (if js_truthy (attachmentsFolderId d) \<or> getSavedFolder domain (store d) \<noteq> None
            then (Inl not_authenticated_error, after_getToken d)
            else (Inl no_folder_error, d))"
    by (simp add: listAttachments_def getOrCreateAttachmentsFolder_unauthenticated [OF assms]
          apiRequest_unauthenticated [OF assms] Let_def)
  show "listAllDomainFiles pf domain d =
           (if getSavedFolder domain (store d) \<noteq> None
            then (Inl not_authenticated_error, after_getToken d)
            else (Inr [], d))"
    by (auto simp: listAllDomainFiles_def apiRequest_unauthenticated [OF assms] Let_def
          split: option.splits)
  show "fetch pf domain d =
           (if js_truthy (fileId d) then (Inr no_data, after_getToken d)
            else if getSavedFolder domain (store d) \<noteq> None
            then (Inl not_authenticated_error, after_getToken d)
            else (Inl no_folder_error, d))"
    by (simp add: fetch_def getOrCreateDataFile_unauthenticated [OF assms]
          apiRequest_unauthenticated [OF assms])
  show "fetchDomainData pf domainFileId d = (JNull, after_getToken d)"
    by (simp add: fetchDomainData_def apiRequest_unauthenticated [OF assms])
  show "requests (after_getToken d) = requests d"
    by (simp add: after_getToken_fields)
next
  assume "\<not> js_truthy (fileId d)"
  then show "push pf domain syncData d =
              (if getSavedFolder domain (store d) \<noteq> None
               then (Inl not_authenticated_error, after_getToken d)
               else (Inl no_folder_error, d))"
    by (simp add: push_def getOrCreateDataFile_unauthenticated [OF assms])
next
  assume "\<not> js_truthy (attachmentsFolderId d)"
  then show "uploadAttachment pf domain attachmentId fname blob mime d =
              (if getSavedFolder domain (store d) \<noteq> None
               then (Inl not_authenticated_error, after_getToken d)
               else (Inl no_folder_error, d))"
    by (simp add: uploadAttachment_def getOrCreateAttachmentsFolder_unauthenticated [OF assms])
qed

lemma sample_unauthenticated: "\<not> authenticated (sample_drive False cached)"
  by (simp add: authenticated_def sample_drive_def getToken_def truthy_def)

theorem unauthenticated_requests_fail_fast_witness:
  "\<not> authenticated (sample_drive False None) \<and>
   fst (fetch (first_use_platform []) ''seneschal'' (sample_drive False None)) = Inl not_authenticated_error \<and>
   requests (snd (fetch (first_use_platform []) ''seneschal'' (sample_drive False None))) = [] \<and>
   fst (deleteAttachment (first_use_platform []) ''r1'' (sample_drive False None)) = Inl not_authenticated_error \<and>
   fst (listAttachments (first_use_platform []) ''other'' (sample_drive False None)) = Inl no_folder_error \<and>
   listAllDomainFiles (first_use_platform []) ''other'' (sample_drive False None) = (Inr [], sample_drive False None)"
proof -
  have u: "\<not> authenticated (sample_drive False None)" by (rule sample_unauthenticated)
  have f: "getSavedFolder ''seneschal'' (store (sample_drive False None)) \<noteq> None"
    and g: "getSavedFolder ''other'' (store (sample_drive False None)) = None"
    and c: "\<not> js_truthy (fileId (sample_drive False None))"
    and c': "\<not> js_truthy (attachmentsFolderId (sample_drive False None))"
    by (simp_all add: getSavedFolder_def sample_drive_def)
  note t = unauthenticated_requests_fail_fast [OF u, of "first_use_platform []" _ _ _ "''seneschal''"]
  note t' = unauthenticated_requests_fail_fast [OF u, of "first_use_platform []" _ _ "''r1''" "''other''"]
  from t f c have "fetch (first_use_platform []) ''seneschal'' (sample_drive False None)
      = (Inl not_authenticated_error, after_getToken (sample_drive False None))"
    by simp
  moreover have "requests (after_getToken (sample_drive False None)) = []"
    by (simp add: after_getToken_def sample_drive_def)
  moreover from t' have "deleteAttachment (first_use_platform []) ''r1'' (sample_drive False None)
      = (Inl not_authenticated_error, after_getToken (sample_drive False None))"
    by blast
  moreover from t' g c' have "listAttachments (first_use_platform []) ''other'' (sample_drive False None)
      = (Inl no_folder_error, sample_drive False None)"
    by simp
  moreover from t' g have "listAllDomainFiles (first_use_platform []) ''other'' (sample_drive False None)
      = (Inr [], sample_drive False None)"
    by simp
  ultimately show ?thesis using u by simp
qed

text \<open>
  The claim as stated fails on a provider without a token and with cached ids: \<open>fetch\<close>
  and \<open>fetchDomainData\<close> return their null results instead of failing, and
  \<open>downloadAttachment\<close> sends its request, with the header \<open>Bearer null\<close>.
\<close>

theorem unauthenticated_not_always_error_counterexample:
  "\<not> authenticated (sample_drive False (Some (JStr ''f1''))) \<and>
   fst (fetch (first_use_platform []) ''seneschal'' (sample_drive False (Some (JStr ''f1'')))) = Inr no_data \<and>
   fst (fetchDomainData (first_use_platform []) ''f1'' (sample_drive False (Some (JStr ''f1'')))) = JNull \<and>
   requests (snd (downloadAttachment (first_use_platform []) ''r1'' (sample_drive False (Some (JStr ''f1'')))))
     = [\<lparr> url = ''https://www.googleapis.com/drive/v3/files/r1?alt=media'',
          http_method = None,
          headers = [(''Authorization'', ''Bearer null'')],
          body = None \<rparr>]"
  by (simp add: authenticated_def sample_drive_def getToken_def truthy_def fetch_def
        getOrCreateDataFile_def apiRequest_def fetchDomainData_def downloadAttachment_def
        send_def template_def no_data_def Let_def first_use_platform_def first_use_fetch_def)

subsection \<open>Fetching the data file\<close>

lemma apiRequest_authenticated:
  assumes "authenticated d"
  shows "apiRequest pf path options d =
     (let req = \<lparr> url = API_BASE @ path, http_method = opt_method options,
                   headers = (''Authorization'',
                              ''Bearer '' @ template (fst (getToken ''google'' (clock d) (store d))))
                             # opt_headers options,
                   body = opt_body options \<rparr>;
          d1 = d\<lparr> requests := requests d @ [req] \<rparr>
      in case window_fetch pf (requests d) req of
           Inl e \<Rightarrow> (Inl e, d1)
         | Inr response \<Rightarrow>
             if \<not> ok response then (Inl (api_error pf response), d1)
             else if body_text response = [] then (Inr JNull, d1)
             else (case parse pf (body_text response) of
                     None \<Rightarrow> (Inr JNull, d1)
                   | Some j \<Rightarrow> (Inr j, d1)))"
proof -
  obtain token st where g: "getToken ''google'' (clock d) (store d) = (token, st)"
    by (cases "getToken ''google'' (clock d) (store d)")
  with assms have t: "truthy token" by (simp add: authenticated_def)
  with g getToken_truthy_store [of "''google''" "clock d" "store d"] have st: "st = store d"
    by simp
  from st have same: "d\<lparr> store := st \<rparr> = d" by simp
  show ?thesis
    unfolding apiRequest_def g
    by (simp add: t same send_def Let_def split: sum.splits option.splits)
qed

lemma apiRequest_keeps_login:
  assumes "authenticated d" and "apiRequest pf path options d = (r, d1)"
  shows "store d1 = store d \<and> clock d1 = clock d"
  using assms(2) unfolding apiRequest_authenticated [OF assms(1)]
  by (auto simp: Let_def split: sum.splits if_splits option.splits)

lemma authenticated_cong:
  "store d1 = store d \<and> clock d1 = clock d \<Longrightarrow> authenticated d \<Longrightarrow> authenticated d1"
  by (simp add: authenticated_def)

lemma getOrCreateDataFile_keeps_login:
  assumes a: "authenticated d" and g: "getOrCreateDataFile pf domain d = (r, d1)"
  shows "store d1 = store d \<and> clock d1 = clock d"
proof (cases "js_truthy (fileId d)")
  case True
  with g show ?thesis by (simp add: getOrCreateDataFile_def)
next
  case False
  show ?thesis
  proof (cases "getSavedFolder domain (store d)")
    case None
    with False g show ?thesis by (simp add: getOrCreateDataFile_def)
  next
    case (Some folder)
    let ?path = "''/drive/v3/files?q='' @ encodeURIComponent pf
        (''name='' @ quoted (domain @ ''-data.json'') @ '' and '' @ quoted (folder_id folder)
           @ '' in parents and trashed=false'')"
    let ?meta = "JObj [(''name'', JStr (domain @ ''-data.json'')),
                       (''parents'', JArr [JStr (folder_id folder)]),
                       (''mimeType'', JStr ''application/json'')]"
    obtain r1 d' where s: "apiRequest pf ?path no_options d = (r1, d')"
      by (cases "apiRequest pf ?path no_options d")
    from apiRequest_keeps_login [OF a s] have k: "store d' = store d \<and> clock d' = clock d" .
    then have a': "authenticated d'" using a by (rule authenticated_cong)
    obtain r2 d'' where c: "apiRequest pf ''/drive/v3/files'' (json_request ?meta pf) d' = (r2, d'')"
      by (cases "apiRequest pf ''/drive/v3/files'' (json_request ?meta pf) d'")
    from apiRequest_keeps_login [OF a' c] k have k': "store d'' = store d \<and> clock d'' = clock d"
      by simp
    have unfolded: "getOrCreateDataFile pf domain d =
        (case r1 of
           Inl e \<Rightarrow> (Inl e, d')
         | Inr searchResult \<Rightarrow>
             if has_files searchResult then
               (case first_file_id searchResult of
                  Inl e \<Rightarrow> (Inl e, d')
                | Inr fid \<Rightarrow> (Inr fid, d'\<lparr> fileId := fid \<rparr>))
             else
               (case r2 of
                  Inl e \<Rightarrow> (Inl e, d'')
                | Inr createResult \<Rightarrow>
                    (case get_prop (Some createResult) ''id'' of
                       Inl e \<Rightarrow> (Inl e, d'')
                     | Inr fid \<Rightarrow> (Inr fid, d''\<lparr> fileId := fid \<rparr>))))"
      unfolding getOrCreateDataFile_def Let_def
      by (simp only: False Some if_False option.case s c prod.case)
    from g [unfolded unfolded] k k' show ?thesis
      by (auto split: sum.splits if_splits)
  qed
qed

lemma fetch_located:
  assumes a: "authenticated d" and g: "getOrCreateDataFile pf domain d = (Inr fid, d1)"
  shows "fst (fetch pf domain d) =
     (case download_answer pf fid d1 of
        Inl e \<Rightarrow> Inr no_data
      | Inr response \<Rightarrow>
          if \<not> ok response \<or> body_text response = [] then Inr no_data
          else (case parse pf (body_text response) of
                  None \<Rightarrow> Inr no_data
                | Some doc \<Rightarrow>
                    if \<not> js_truthy (Some doc) \<or> \<not> is_object doc then Inr no_data
                    else Inr \<lparr> file_data = or_null (js_prop doc ''data''),
                               file_lastModified = or_null (js_prop doc ''lastModified'') \<rparr>))"
proof -
  from getOrCreateDataFile_keeps_login [OF a g] a have a1: "authenticated d1"
    by (rule authenticated_cong)
  show ?thesis
    unfolding fetch_def g
    by (simp add: apiRequest_authenticated [OF a1] download_answer_def download_request_def
          no_options_def Let_def split: sum.splits option.splits)
qed

lemma fetch_throws_only_lookup:
  "fst (fetch pf domain d) = Inl e \<Longrightarrow> fst (getOrCreateDataFile pf domain d) = Inl e"
  by (auto simp: fetch_def split: prod.splits sum.splits if_splits)

lemma fetch_throws_lookup:
  "fst (getOrCreateDataFile pf domain d) = Inl e \<Longrightarrow> fst (fetch pf domain d) = Inl e"
  by (cases "getOrCreateDataFile pf domain d") (simp add: fetch_def)

lemma fetch_located_results:
  assumes "authenticated d" and "getOrCreateDataFile pf domain d = (Inr fid, d1)"
  shows "(\<exists>r. fst (fetch pf domain d) = Inr r) \<and>
         (no_document pf (download_answer pf fid d1) \<longrightarrow> fst (fetch pf domain d) = Inr no_data) \<and>
         (\<forall>ps. holds_document pf (download_answer pf fid d1) (JObj ps) \<longrightarrow>
            fst (fetch pf domain d) =
              Inr \<lparr> file_data = or_null (map_of ps ''data''),
                    file_lastModified = or_null (map_of ps ''lastModified'') \<rparr>) \<and>
         (\<forall>ps v t. holds_document pf (download_answer pf fid d1) (JObj ps) \<and>
            map_of ps ''data'' = Some v \<and> js_truthy (Some v) \<and>
            map_of ps ''lastModified'' = Some (JStr t) \<and> t \<noteq> [] \<longrightarrow>
            fst (fetch pf domain d) = Inr \<lparr> file_data = v, file_lastModified = JStr t \<rparr>)"
proof -
  note f = fetch_located [OF assms]
  have 1: "\<exists>r. fst (fetch pf domain d) = Inr r"
    unfolding f by (simp split: sum.splits option.splits)
  have 2: "no_document pf (download_answer pf fid d1) \<longrightarrow> fst (fetch pf domain d) = Inr no_data"
    unfolding f by (auto simp: no_document_def split: sum.splits option.splits)
  have 3: "holds_document pf (download_answer pf fid d1) (JObj ps) \<longrightarrow>
            fst (fetch pf domain d) =
              Inr \<lparr> file_data = or_null (map_of ps ''data''),
                    file_lastModified = or_null (map_of ps ''lastModified'') \<rparr>" for ps
    unfolding f by (auto simp: holds_document_def split: sum.splits option.splits)
  have 4: "holds_document pf (download_answer pf fid d1) (JObj ps) \<and>
            map_of ps ''data'' = Some v \<and> js_truthy (Some v) \<and>
            map_of ps ''lastModified'' = Some (JStr t) \<and> t \<noteq> [] \<longrightarrow>
            fst (fetch pf domain d) = Inr \<lparr> file_data = v, file_lastModified = JStr t \<rparr>" for ps v t
    using 3 [of ps] by (auto simp: or_null_def)
  from 1 2 3 4 show ?thesis by blast
qed

text \<open>
  Claim C7, amended. \<open>fetch\<close> throws exactly what the lookup of the data file throws: the
  lookup (the cached id, or the search in the configured folder, or the creation of the
  file) stands before the \<open>try\<close> block, so a search or a creation that the backend
  refuses, or that the network rejects, leaves \<open>fetch\<close> as an exception. In an
  authenticated state in which the lookup gives the id of the file, \<open>fetch\<close> does not
  throw: when the file gives no document (the download is rejected or not ok, the content
  is empty or is not JSON) the result is \<open>{data: null, lastModified: null}\<close>; when the
  content parses to a JSON object the result carries its \<open>data\<close> and \<open>lastModified\<close>
  properties, with \<open>null\<close> for a property that is absent or falsy, and a truthy \<open>data\<close>
  and a non-empty \<open>lastModified\<close> string come back as they are.
\<close>

theorem fetch_without_document:
  "(\<forall>e. fst (fetch pf domain d) = Inl e \<longleftrightarrow> fst (getOrCreateDataFile pf domain d) = Inl e) \<and>
   (\<forall>fid d1. authenticated d \<and> getOrCreateDataFile pf domain d = (Inr fid, d1) \<longrightarrow>
      (\<exists>r. fst (fetch pf domain d) = Inr r) \<and>
      (no_document pf (download_answer pf fid d1) \<longrightarrow> fst (fetch pf domain d) = Inr no_data) \<and>
      (\<forall>ps. holds_document pf (download_answer pf fid d1) (JObj ps) \<longrightarrow>
         fst (fetch pf domain d) =
           Inr \<lparr> file_data = or_null (map_of ps ''data''),
                 file_lastModified = or_null (map_of ps ''lastModified'') \<rparr>) \<and>
      (\<forall>ps v t. holds_document pf (download_answer pf fid d1) (JObj ps) \<and>
         map_of ps ''data'' = Some v \<and> js_truthy (Some v) \<and>
         map_of ps ''lastModified'' = Some (JStr t) \<and> t \<noteq> [] \<longrightarrow>
         fst (fetch pf domain d) = Inr \<lparr> file_data = v, file_lastModified = JStr t \<rparr>))"
proof (intro conjI allI impI)
  fix e
  show "fst (fetch pf domain d) = Inl e \<longleftrightarrow> fst (getOrCreateDataFile pf domain d) = Inl e"
    using fetch_throws_only_lookup [of pf domain d e] fetch_throws_lookup [of pf domain d e]
    by blast
next
  fix fid d1
  assume h: "authenticated d \<and> getOrCreateDataFile pf domain d = (Inr fid, d1)"
  then have a: "authenticated d" and g: "getOrCreateDataFile pf domain d = (Inr fid, d1)"
    by simp_all
  note r = fetch_located_results [OF a g]
  from r show "\<exists>r. fst (fetch pf domain d) = Inr r" by blast
  {
    assume "no_document pf (download_answer pf fid d1)"
    with r show "fst (fetch pf domain d) = Inr no_data" by blast
  }
  {
    fix ps assume "holds_document pf (download_answer pf fid d1) (JObj ps)"
    with r show "fst (fetch pf domain d) =
           Inr \<lparr> file_data = or_null (map_of ps ''data''),
                 file_lastModified = or_null (map_of ps ''lastModified'') \<rparr>" by blast
  }
  {
    fix ps v t
    assume "holds_document pf (download_answer pf fid d1) (JObj ps) \<and>
         map_of ps ''data'' = Some v \<and> js_truthy (Some v) \<and>
         map_of ps ''lastModified'' = Some (JStr t) \<and> t \<noteq> []"
    with r show "fst (fetch pf domain d) = Inr \<lparr> file_data = v, file_lastModified = JStr t \<rparr>"
      by blast
  }
qed

lemma sample_authenticated: "authenticated (sample_drive True cached)"
  by (simp add: authenticated_def sample_drive_def getToken_def truthy_def)

lemma first_use_lookup:
  "\<exists>d1. getOrCreateDataFile (first_use_platform c) ''seneschal'' (sample_drive True None)
          = (Inr (Some (JStr ''f1'')), d1) \<and> length (requests d1) = 2"
  by (simp add: getOrCreateDataFile_def getSavedFolder_def sample_drive_def apiRequest_def
        getToken_def truthy_def send_def first_use_platform_def first_use_fetch_def
        first_use_parse_def has_files_def opt_prop_def get_prop_def json_request_def
        no_options_def Let_def)

lemma first_use_answer:
  "length (requests d1) = 2 \<Longrightarrow>
     download_answer (first_use_platform c) fid d1 = Inr \<lparr> ok = True, body_text = c \<rparr>"
  by (simp add: download_answer_def first_use_platform_def first_use_fetch_def)

lemma first_use_parser: "parse (first_use_platform c) = first_use_parse"
  by (simp add: first_use_platform_def)

theorem fetch_without_document_witness:
  "authenticated (sample_drive True None) \<and>
   fst (getOrCreateDataFile (first_use_platform []) ''seneschal'' (sample_drive True None))
     = Inr (Some (JStr ''f1'')) \<and>
   fst (fetch (first_use_platform []) ''seneschal'' (sample_drive True None)) = Inr no_data \<and>
   fst (fetch (first_use_platform ''garbled'') ''seneschal'' (sample_drive True None)) = Inr no_data \<and>
   fst (fetch (first_use_platform ''document'') ''seneschal'' (sample_drive True None))
     = Inr \<lparr> file_data = JArr [JObj [(''id'', JStr ''x'')]],
             file_lastModified = JStr ''2025-01-01T00:00:10Z'' \<rparr>"
proof -
  let ?d = "sample_drive True None"
  have a: "authenticated ?d" by (rule sample_authenticated)
  obtain d0 where g0: "getOrCreateDataFile (first_use_platform []) ''seneschal'' ?d
      = (Inr (Some (JStr ''f1'')), d0)" and l0: "length (requests d0) = 2"
    using first_use_lookup [of "[]"] by blast
  obtain d1 where g1: "getOrCreateDataFile (first_use_platform ''garbled'') ''seneschal'' ?d
      = (Inr (Some (JStr ''f1'')), d1)" and l1: "length (requests d1) = 2"
    using first_use_lookup [of "''garbled''"] by blast
  obtain d2 where g2: "getOrCreateDataFile (first_use_platform ''document'') ''seneschal'' ?d
      = (Inr (Some (JStr ''f1'')), d2)" and l2: "length (requests d2) = 2"
    using first_use_lookup [of "''document''"] by blast
  have n0: "no_document (first_use_platform []) (download_answer (first_use_platform []) (Some (JStr ''f1'')) d0)"
    by (simp add: first_use_answer [OF l0] no_document_def)
  have n1: "no_document (first_use_platform ''garbled'')
      (download_answer (first_use_platform ''garbled'') (Some (JStr ''f1'')) d1)"
    by (simp add: first_use_answer [OF l1] no_document_def first_use_parser first_use_parse_def)
  have h2: "holds_document (first_use_platform ''document'')
      (download_answer (first_use_platform ''document'') (Some (JStr ''f1'')) d2)
      (JObj [(''domain'', JStr ''seneschal''), (''version'', JNum 1),
             (''data'', JArr [JObj [(''id'', JStr ''x'')]]),
             (''lastModified'', JStr ''2025-01-01T00:00:10Z'')])"
    by (simp add: first_use_answer [OF l2] holds_document_def first_use_parser first_use_parse_def)
  from fetch_without_document [of "first_use_platform []" "''seneschal''" ?d] a g0 n0
  have r0: "fst (fetch (first_use_platform []) ''seneschal'' ?d) = Inr no_data" by blast
  from fetch_without_document [of "first_use_platform ''garbled''" "''seneschal''" ?d] a g1 n1
  have r1: "fst (fetch (first_use_platform ''garbled'') ''seneschal'' ?d) = Inr no_data" by blast
  from fetch_without_document [of "first_use_platform ''document''" "''seneschal''" ?d] a g2 h2
  have "fst (fetch (first_use_platform ''document'') ''seneschal'' ?d)
     = Inr \<lparr> file_data = or_null (map_of [(''domain'', JStr ''seneschal''), (''version'', JNum 1),
             (''data'', JArr [JObj [(''id'', JStr ''x'')]]),
             (''lastModified'', JStr ''2025-01-01T00:00:10Z'')] ''data''),
          file_lastModified = or_null (map_of [(''domain'', JStr ''seneschal''), (''version'', JNum 1),
             (''data'', JArr [JObj [(''id'', JStr ''x'')]]),
             (''lastModified'', JStr ''2025-01-01T00:00:10Z'')] ''lastModified'') \<rparr>"
    by blast
  then have r2: "fst (fetch (first_use_platform ''document'') ''seneschal'' ?d)
     = Inr \<lparr> file_data = JArr [JObj [(''id'', JStr ''x'')]],
             file_lastModified = JStr ''2025-01-01T00:00:10Z'' \<rparr>"
    by (simp add: or_null_def)
  from a g0 r0 r1 r2 show ?thesis by simp
qed

text \<open>
  The claim as stated fails in an authenticated state with a configured folder in which
  the data file is missing: when the backend refuses to create the file, or the network
  is down, \<open>fetch\<close> throws.
\<close>

theorem fetch_refused_creation_counterexample:
  "authenticated (sample_drive True None) \<and>
   isFolderConfigured ''seneschal'' (sample_drive True None) \<and>
   fst (fetch refused_create_platform ''seneschal'' (sample_drive True None))
     = Inl (Error ''API request failed'') \<and>
   length (requests (snd (fetch refused_create_platform ''seneschal'' (sample_drive True None)))) = 2 \<and>
   fst (fetch offline_platform ''seneschal'' (sample_drive True None))
     = Inl (TypeError ''Failed to fetch'')"
  by (simp add: authenticated_def isFolderConfigured_def fetch_def getOrCreateDataFile_def
        getSavedFolder_def sample_drive_def apiRequest_def getToken_def truthy_def send_def
        refused_create_platform_def offline_platform_def refused_create_fetch_def
        first_use_platform_def first_use_parse_def api_error_def has_files_def opt_prop_def
        get_prop_def json_request_def no_options_def Let_def)

end
